theory Spec2Isabelle
  imports Complex_Main "HOL-Library.Char_ord" "HOL-Library.List_Lexorder" "HOL-Library.Sublist"
    "HOL-Library.Multiset"
begin

section \<open>Configuration (config.py)\<close>

text \<open>
  A \<^verbatim>\<open>pathlib.Path\<close> is the list of its parts, the root \<^verbatim>\<open>/\<close> first, as
  \<^verbatim>\<open>Path.parts\<close> gives them. \<^verbatim>\<open>p / name\<close> appends one part; every name joined in
  this program is a single relative component.
\<close>

type_synonym path = "string list"

definition path_div :: "path \<Rightarrow> string \<Rightarrow> path" where
  "path_div p n = p @ [n]"

datatype EncodePreset = FASTER | FAST | MEDIUM | SLOW | SLOWER

fun preset_value :: "EncodePreset \<Rightarrow> int" where
  "preset_value FASTER = 5"
| "preset_value FAST = 6"
| "preset_value MEDIUM = 7"
| "preset_value SLOW = 8"
| "preset_value SLOWER = 9"

record EncoderConfig =
  BASE_DIR :: path
  DIRS :: "string list"
  MIN_FILE_SIZE :: int
  SUPPORTED_FORMATS :: "string list"
  SEGMENT_DURATION :: string
  MIN_VMAF :: int
  PRESET :: EncodePreset
  KEYINT :: string
  AUDIO_BITRATES :: "int \<rightharpoonup> int"

definition default_config :: EncoderConfig where
  "default_config =
     \<lparr> BASE_DIR = [''/'', ''app'', ''videos''],
       DIRS = [''input'', ''working'', ''output'', ''segments'', ''encoded_segments'', ''logs''],
       MIN_FILE_SIZE = 1024,
       SUPPORTED_FORMATS = [''mkv'', ''mp4''],
       SEGMENT_DURATION = ''00:01:00'',
       MIN_VMAF = 92,
       PRESET = FAST,
       KEYINT = ''10s'',
       AUDIO_BITRATES = [1 \<mapsto> 64, 2 \<mapsto> 128, 6 \<mapsto> 256, 8 \<mapsto> 384] \<rparr>"

definition get_dir :: "EncoderConfig \<Rightarrow> string \<Rightarrow> path" where
  "get_dir cfg name = path_div (BASE_DIR cfg) name"

text \<open>\<^verbatim>\<open>dict.get(key, default)\<close>.\<close>

definition dict_get :: "('k \<rightharpoonup> 'v) \<Rightarrow> 'k \<Rightarrow> 'v \<Rightarrow> 'v" where
  "dict_get d k dflt = (case d k of None \<Rightarrow> dflt | Some v \<Rightarrow> v)"

definition get_audio_bitrate :: "EncoderConfig \<Rightarrow> int \<Rightarrow> int" where
  "get_audio_bitrate cfg channels = dict_get (AUDIO_BITRATES cfg) channels (channels * 48)"

section \<open>Job statistics (core/encoder.py, ProcessingStats)\<close>

text \<open>
  Timestamps and the ratio are Python floats. The model keeps the exact rational value:
  \<^verbatim>\<open>input_size / output_size\<close> on two ints is the quotient of the two integers
  (Python rounds it once, to the nearest double).
\<close>

record ProcessingStats =
  filename :: string
  start_time :: rat
  end_time :: "rat option"
  input_size :: "int option"
  output_size :: "int option"
  segment_count :: "nat option"
  audio_tracks :: "nat option"

text \<open>Truthiness of an \<^verbatim>\<open>Optional[int]\<close>: \<^verbatim>\<open>None\<close> and \<^verbatim>\<open>0\<close> are false.\<close>

fun truthy_int :: "int option \<Rightarrow> bool" where
  "truthy_int None = False"
| "truthy_int (Some n) = (n \<noteq> 0)"

definition duration :: "ProcessingStats \<Rightarrow> rat" where
  "duration s = (case end_time s of None \<Rightarrow> 0 | Some e \<Rightarrow> e - start_time s)"

definition compression_ratio :: "ProcessingStats \<Rightarrow> rat option" where
  "compression_ratio s =
     (if truthy_int (input_size s) \<and> truthy_int (output_size s)
      then Some (of_int (the (input_size s)) / of_int (the (output_size s)))
      else None)"

definition mk_stats :: "string \<Rightarrow> rat \<Rightarrow> int option \<Rightarrow> int option \<Rightarrow> ProcessingStats" where
  "mk_stats name t i out =
     \<lparr> filename = name, start_time = t, end_time = None, input_size = i,
       output_size = out, segment_count = None, audio_tracks = None \<rparr>"

section \<open>Strings and paths\<close>

text \<open>
  Python strings are modelled as \<^typ>\<open>string\<close>; the helpers below are the library
  functions the program calls on them.
\<close>

definition SQ :: char where
  "SQ = CHR 0x27"

definition BSL :: char where
  "BSL = CHR 0x5C"

definition NL :: char where
  "NL = CHR 0x0A"

fun join_str :: "string \<Rightarrow> string list \<Rightarrow> string" where
  "join_str sep [] = []"
| "join_str sep [x] = x"
| "join_str sep (x # y # ys) = x @ sep @ join_str sep (y # ys)"

definition endswith :: "string \<Rightarrow> string \<Rightarrow> bool" where
  "endswith suf s = (length suf \<le> length s \<and> drop (length s - length suf) s = suf)"

text \<open>\<^verbatim>\<open>needle in hay\<close> on strings.\<close>

fun contains :: "string \<Rightarrow> string \<Rightarrow> bool" where
  "contains n [] = (n = [])"
| "contains n (h # hs) = (take (length n) (h # hs) = n \<or> contains n hs)"

text \<open>\<^verbatim>\<open>s.replace("'", "'\\''")\<close>: every single quote becomes the four characters \<^verbatim>\<open>'\''\<close>.\<close>

definition escape_quotes :: "string \<Rightarrow> string" where
  "escape_quotes s = concat (map (\<lambda>c. if c = SQ then [SQ, BSL, SQ, SQ] else [c]) s)"

text \<open>\<^verbatim>\<open>str(n)\<close> for an int.\<close>

fun str_nat :: "nat \<Rightarrow> string" where
  "str_nat n = (if n < 10 then [''0123456789'' ! n]
                else str_nat (n div 10) @ [''0123456789'' ! (n mod 10)])"

declare str_nat.simps [simp del]

definition str_int :: "int \<Rightarrow> string" where
  "str_int i = (if i < 0 then CHR ''-'' # str_nat (nat (- i)) else str_nat (nat i))"

text \<open>\<^verbatim>\<open>str(path)\<close>, \<^verbatim>\<open>path.name\<close> and \<^verbatim>\<open>path.stem\<close>.\<close>

fun path_str :: "path \<Rightarrow> string" where
  "path_str [] = ''.''"
| "path_str (r # ps) = (if r = ''/'' then ''/'' @ join_str ''/'' ps else join_str ''/'' (r # ps))"

definition path_name :: "path \<Rightarrow> string" where
  "path_name p = (if p = [] then [] else last p)"

definition rfind :: "char \<Rightarrow> string \<Rightarrow> int" where
  "rfind c s = (if c \<in> set s
                then int (length s) - 1 - int (length (takeWhile (\<lambda>x. x \<noteq> c) (rev s)))
                else - 1)"

definition path_stem :: "path \<Rightarrow> string" where
  "path_stem p =
     (let name = path_name p; i = rfind (CHR ''.'') name
      in if 0 < i \<and> i < int (length name) - 1 then take (nat i) name else name)"

section \<open>Exceptions (utils/exceptions.py and the library exceptions the program meets)\<close>

text \<open>
  One constructor per exception class of the repository, with the arguments its
  constructor takes. \<^verbatim>\<open>FileNotFoundError\<close> is the repository's own class (it shadows
  the builtin one inside the package). \<open>CalledProcessError\<close> is the one that
  \<^verbatim>\<open>run_command\<close> and \<^verbatim>\<open>subprocess.run\<close> raise on a non-zero exit status,
  \<open>JSONDecodeError\<close> the one of \<^verbatim>\<open>json.loads\<close>; every other library exception
  (\<^verbatim>\<open>OSError\<close> and its subclasses, \<^verbatim>\<open>TypeError\<close>, \<^verbatim>\<open>AttributeError\<close>, ...) is
  \<open>PyError cls text\<close> with its class name and its \<^verbatim>\<open>str()\<close>. All of them are
  subclasses of \<^verbatim>\<open>Exception\<close>, so \<^verbatim>\<open>except Exception\<close> catches every value of this
  type.
\<close>

datatype exn =
    VideoEncoderError string "path option"
  | ValidationError string "path option"
  | FileNotFoundError string "path option"
  | FileSizeError path int int
  | InvalidVideoError string "path option"
  | FFmpegError string string "string option"
  | AudioError string "path option"
  | SegmentationError string "path option"
  | EncodingError string "path option"
  | ConcatenationError string "path option"
  | RemuxError string "path option"
  | ProcessError string "string list" int string string
  | CleanupError string "path option"
  | CalledProcessError int "string list" string string
  | JSONDecodeError string
  | PyError string string

text \<open>\<^verbatim>\<open>VideoEncoderError.formatted_message\<close>.\<close>

definition formatted_message :: "string \<Rightarrow> path option \<Rightarrow> string" where
  "formatted_message message file =
     (case file of None \<Rightarrow> message
      | Some f \<Rightarrow> message @ '' (File: '' @ path_str f @ '')'')"

text \<open>
  \<^verbatim>\<open>repr\<close> of a list of strings, as \<^verbatim>\<open>CalledProcessError.__str__\<close> prints the
  command. The quoting is Python's for arguments made of printable characters.
\<close>

definition repr_str :: "string \<Rightarrow> string" where
  "repr_str s =
     (if SQ \<in> set s \<and> CHR 0x22 \<notin> set s
      then CHR 0x22 # concat (map (\<lambda>c. if c = BSL then [BSL, BSL] else [c]) s) @ [CHR 0x22]
      else SQ # concat (map (\<lambda>c. if c = BSL then [BSL, BSL]
                                  else if c = SQ then [BSL, SQ] else [c]) s) @ [SQ])"

definition repr_list :: "string list \<Rightarrow> string" where
  "repr_list xs = ''['' @ join_str '', '' (map repr_str xs) @ '']''"

text \<open>\<^verbatim>\<open>str(e)\<close>.\<close>

fun str_exn :: "exn \<Rightarrow> string" where
  "str_exn (VideoEncoderError m f) = formatted_message m f"
| "str_exn (ValidationError m f) = formatted_message m f"
| "str_exn (FileNotFoundError m f) = formatted_message m f"
| "str_exn (FileSizeError f sz min_size) =
     formatted_message (''File size ('' @ str_int sz @ '' bytes) is below minimum required size (''
        @ str_int min_size @ '' bytes)'') (Some f)"
| "str_exn (InvalidVideoError m f) = formatted_message m f"
| "str_exn (FFmpegError m command out) =
     (m @ [NL] @ ''Command: '' @ command) @
     (case out of None \<Rightarrow> [] | Some t \<Rightarrow> if t = [] then [] else [NL] @ ''Output: '' @ t)"
| "str_exn (AudioError m f) = formatted_message m f"
| "str_exn (SegmentationError m f) = formatted_message m f"
| "str_exn (EncodingError m f) = formatted_message m f"
| "str_exn (ConcatenationError m f) = formatted_message m f"
| "str_exn (RemuxError m f) = formatted_message m f"
| "str_exn (ProcessError m c rc out err) =
     m @ [NL] @ ''Command: '' @ join_str '' '' c @ [NL] @ ''Return code: '' @ str_int rc @ [NL]
       @ ''stdout: '' @ out @ [NL] @ ''stderr: '' @ err"
| "str_exn (CleanupError m f) = formatted_message m f"
| "str_exn (CalledProcessError rc c out err) =
     ''Command '' @ repr_list c @ '' returned non-zero exit status '' @ str_int rc @ ''.''"
| "str_exn (JSONDecodeError t) = t"
| "str_exn (PyError cls t) = t"


section \<open>The state the stages work on\<close>

datatype level = DEBUG | INFO | WARNING | ERROR

datatype fs_op = Rmtree | Mkdir | Mkfile | Unlink

text \<open>
  The world of the stages: the file system, the clock, the tools on \<^verbatim>\<open>PATH\<close>, the
  records of the module-level (root) logger, the records and the current file of the
  \<^verbatim>\<open>ContextLogger\<close> that the encoder shares with its processors (each record with
  the current file it was made under), and the \<^verbatim>\<open>is_dolby_vision\<close> attribute of the
  \<^verbatim>\<open>VideoProcessor\<close>.
  \<^item> \<open>dirs\<close> maps each existing directory to its entries, in the order the operating
    system enumerates them: the name and the size in bytes of each regular file.
  \<^item> \<open>faults\<close> says which file-system calls fail, and with which \<^verbatim>\<open>OSError\<close> text
    (permission denied, read-only file system, ...).
  \<^item> \<open>history\<close> and \<open>writes\<close> are traces kept for the statements: the command of every
    process started, and the text of every file the program writes.
\<close>

record world =
  dirs :: "path \<rightharpoonup> (string \<times> int) list"
  faults :: "fs_op \<Rightarrow> path \<rightharpoonup> string"
  clock :: rat
  on_path :: "string \<Rightarrow> bool"
  root_log :: "(level \<times> string) list"
  ctx_log :: "(level \<times> string option \<times> string) list"
  current_file :: "string option"
  is_dolby_vision :: bool
  history :: "string list list"
  writes :: "(path \<times> string) list"

text \<open>
  Computations that may raise and that change a state: \<open>Inl e\<close> is the exception
  \<open>e\<close> in flight, \<open>Inr x\<close> the value returned.
\<close>

type_synonym ('a, 's) M = "'s \<Rightarrow> (exn + 'a) \<times> 's"

definition returnM :: "'a \<Rightarrow> ('a, 's) M" where
  "returnM x s = (Inr x, s)"

definition raiseM :: "exn \<Rightarrow> ('a, 's) M" where
  "raiseM e s = (Inl e, s)"

definition bindM :: "('a, 's) M \<Rightarrow> ('a \<Rightarrow> ('b, 's) M) \<Rightarrow> ('b, 's) M" where
  "bindM m k s = (case m s of (Inl e, s') \<Rightarrow> (Inl e, s') | (Inr x, s') \<Rightarrow> k x s')"

definition seqM :: "('a, 's) M \<Rightarrow> ('b, 's) M \<Rightarrow> ('b, 's) M" where
  "seqM m k = bindM m (\<lambda>_. k)"

text \<open>\<^verbatim>\<open>try: m  except Exception as e: h e\<close> (a handler re-raises what it does not catch).\<close>

definition catchM :: "('a, 's) M \<Rightarrow> (exn \<Rightarrow> ('a, 's) M) \<Rightarrow> ('a, 's) M" where
  "catchM m h s = (case m s of (Inl e, s') \<Rightarrow> h e s' | (Inr x, s') \<Rightarrow> (Inr x, s'))"

text \<open>
  \<^verbatim>\<open>try: m  finally: f\<close>: \<open>f\<close> runs on every path; the outcome is that of \<open>m\<close> unless
  \<open>f\<close> itself raises.
\<close>

definition finallyM :: "('a, 's) M \<Rightarrow> (unit, 's) M \<Rightarrow> ('a, 's) M" where
  "finallyM m f s =
     (case m s of (r, s') \<Rightarrow>
        (case f s' of (Inl e, s'') \<Rightarrow> (Inl e, s'') | (Inr _, s'') \<Rightarrow> (r, s'')))"

definition modifyM :: "('s \<Rightarrow> 's) \<Rightarrow> (unit, 's) M" where
  "modifyM f s = (Inr (), f s)"

text \<open>A loop \<^verbatim>\<open>for x in xs: body(x)\<close>; it stops at the first exception.\<close>

fun forM :: "'a list \<Rightarrow> ('a \<Rightarrow> (unit, 's) M) \<Rightarrow> (unit, 's) M" where
  "forM [] body = returnM ()"
| "forM (x # xs) body = seqM (body x) (forM xs body)"

definition root_logger :: "level \<Rightarrow> string \<Rightarrow> (unit, world) M" where
  "root_logger lv msg = modifyM (\<lambda>w. w\<lparr>root_log := root_log w @ [(lv, msg)]\<rparr>)"

text \<open>\<^verbatim>\<open>ContextLogger.set_current_file\<close> and \<^verbatim>\<open>ContextLogger._log\<close>.\<close>

definition set_current_file :: "string option \<Rightarrow> (unit, world) M" where
  "set_current_file f = modifyM (\<lambda>w. w\<lparr>current_file := f\<rparr>)"

definition log_context :: "world \<Rightarrow> string option" where
  "log_context w = (case current_file w of None \<Rightarrow> None
                    | Some f \<Rightarrow> if f = [] then None else Some f)"

definition ctx_logger :: "level \<Rightarrow> string \<Rightarrow> (unit, world) M" where
  "ctx_logger lv msg = modifyM (\<lambda>w. w\<lparr>ctx_log := ctx_log w @ [(lv, log_context w, msg)]\<rparr>)"

section \<open>File system calls\<close>

definition entries :: "world \<Rightarrow> path \<Rightarrow> (string \<times> int) list" where
  "entries w d = (case dirs w d of None \<Rightarrow> [] | Some es \<Rightarrow> es)"

definition file_size :: "world \<Rightarrow> path \<Rightarrow> int option" where
  "file_size w p = (if p = [] then None else map_of (entries w (butlast p)) (last p))"

definition is_file :: "world \<Rightarrow> path \<Rightarrow> bool" where
  "is_file w p = (file_size w p \<noteq> None)"

definition path_exists :: "world \<Rightarrow> path \<Rightarrow> bool" where
  "path_exists w p = (dirs w p \<noteq> None \<or> is_file w p)"

text \<open>\<^verbatim>\<open>path.stat().st_size\<close>.\<close>

definition stat_size :: "path \<Rightarrow> (int, world) M" where
  "stat_size p w =
     (case file_size w p of
        None \<Rightarrow> (Inl (PyError ''FileNotFoundError'' (''No such file or directory: '' @ path_str p)), w)
      | Some n \<Rightarrow> (Inr n, w))"

text \<open>\<^verbatim>\<open>directory.glob("*" + suffix)\<close>: the entries whose name ends with the suffix.\<close>

definition glob_suffix :: "world \<Rightarrow> path \<Rightarrow> string \<Rightarrow> path list" where
  "glob_suffix w d suf = map (path_div d) (filter (endswith suf) (map fst (entries w d)))"

text \<open>\<^verbatim>\<open>shutil.rmtree(d)\<close>: removes the directory and everything below it.\<close>

definition rmtree :: "path \<Rightarrow> (unit, world) M" where
  "rmtree d w =
     (case faults w Rmtree d of
        Some t \<Rightarrow> (Inl (PyError ''OSError'' t), w)
      | None \<Rightarrow>
          if dirs w d = None then (Inl (PyError ''NotADirectoryError'' (path_str d)), w)
          else (Inr (), w\<lparr>dirs := (\<lambda>p. if take (length d) p = d then None else dirs w p)\<rparr>))"

text \<open>\<^verbatim>\<open>d.mkdir(parents=True, exist_ok=exist_ok)\<close>.\<close>

definition mkdir :: "bool \<Rightarrow> path \<Rightarrow> (unit, world) M" where
  "mkdir exist_ok d w =
     (case faults w Mkdir d of
        Some t \<Rightarrow> (Inl (PyError ''OSError'' t), w)
      | None \<Rightarrow>
          if dirs w d \<noteq> None \<and> exist_ok then (Inr (), w)
          else if path_exists w d then (Inl (PyError ''FileExistsError'' (path_str d)), w)
          else (Inr (), w\<lparr>dirs := (dirs w)(d \<mapsto> [])\<rparr>))"

text \<open>\<^verbatim>\<open>with open(p, 'w') as f: f.write(text)\<close>: creates or truncates the file.\<close>

definition write_text :: "path \<Rightarrow> string \<Rightarrow> (unit, world) M" where
  "write_text p text w =
     (case faults w Mkfile p of
        Some t \<Rightarrow> (Inl (PyError ''OSError'' t), w)
      | None \<Rightarrow>
          if p = [] \<or> dirs w (butlast p) = None
          then (Inl (PyError ''FileNotFoundError'' (''No such file or directory: '' @ path_str p)), w)
          else (Inr (), w\<lparr>dirs := (dirs w)(butlast p \<mapsto>
                   filter (\<lambda>e. fst e \<noteq> last p) (entries w (butlast p)) @ [(last p, int (length text))]),
                 writes := writes w @ [(p, text)]\<rparr>))"

text \<open>\<^verbatim>\<open>p.unlink()\<close>.\<close>

definition unlink :: "path \<Rightarrow> (unit, world) M" where
  "unlink p w =
     (case faults w Unlink p of
        Some t \<Rightarrow> (Inl (PyError ''OSError'' t), w)
      | None \<Rightarrow>
          if \<not> is_file w p
          then (Inl (PyError ''FileNotFoundError'' (''No such file or directory: '' @ path_str p)), w)
          else (Inr (), w\<lparr>dirs := (dirs w)(butlast p \<mapsto>
                   filter (\<lambda>e. fst e \<noteq> last p) (entries w (butlast p)))\<rparr>))"

section \<open>External processes (utils/subprocess.py)\<close>

text \<open>
  An external tool is a parameter of the model: given the command and the world it
  returns the exit status with the captured standard output and standard error, or the
  exception raised while starting the process or decoding its output, and the world it
  leaves (the files it wrote, the time it took). The tools are assumed to exit. A process
  changes neither the logger nor the Python objects; the command is added to the trace.
\<close>

type_synonym proc = "string list \<Rightarrow> world \<Rightarrow> (exn + int \<times> string \<times> string) \<times> world"

definition start_process :: "proc \<Rightarrow> string list \<Rightarrow> (int \<times> string \<times> string, world) M" where
  "start_process proc cmd w =
     (case proc cmd w of (r, w') \<Rightarrow>
        (r, w'\<lparr>root_log := root_log w, ctx_log := ctx_log w,
               current_file := current_file w, is_dolby_vision := is_dolby_vision w,
               history := history w @ [cmd], writes := writes w\<rparr>))"

text \<open>
  \<^verbatim>\<open>run_command(cmd, desc, check=True, show_output)\<close>. The output lines that the
  function copies to the log while the process runs are not recorded here.
\<close>

definition run_command :: "proc \<Rightarrow> string list \<Rightarrow> string \<Rightarrow> (int \<times> string \<times> string, world) M" where
  "run_command proc cmd desc =
     seqM (root_logger INFO (''Running '' @ desc @ '': '' @ join_str '' '' cmd))
       (bindM (start_process proc cmd) (\<lambda>(return_code, stdout, stderr).
          if return_code \<noteq> 0 then raiseM (CalledProcessError return_code cmd stdout stderr)
          else returnM (return_code, stdout, stderr)))"

text \<open>\<^verbatim>\<open>subprocess.run(cmd, capture_output=True, text=True, check=True)\<close>; returns stdout.\<close>

definition subprocess_run :: "proc \<Rightarrow> string list \<Rightarrow> (string, world) M" where
  "subprocess_run proc cmd =
     bindM (start_process proc cmd) (\<lambda>(return_code, stdout, stderr).
        if return_code \<noteq> 0 then raiseM (CalledProcessError return_code cmd stdout stderr)
        else returnM stdout)"

section \<open>Validation (utils/validation.py)\<close>

text \<open>
  Of the log lines of the validator and of the video and audio processors, those at
  warning and error level are modelled, and every line of \<^verbatim>\<open>detect_dolby_vision\<close>;
  their other informational lines are left out, but each expression such a line
  evaluates that can raise (a \<^verbatim>\<open>stat()\<close>, a \<^verbatim>\<open>len()\<close>) is kept.
\<close>

definition check_ffmpeg_installed :: "(unit, world) M" where
  "check_ffmpeg_installed =
     forM [''ffmpeg'', ''ffprobe'', ''mediainfo''] (\<lambda>tool w.
       if \<not> on_path w tool
       then raiseM (ValidationError (''Required tool '' @ [SQ] @ tool @ [SQ] @ '' not found in PATH'') None) w
       else returnM () w)"

definition validate_video_file :: "proc \<Rightarrow> EncoderConfig \<Rightarrow> path \<Rightarrow> string \<Rightarrow> (unit, world) M" where
  "validate_video_file proc cfg file step =
     (\<lambda>w. if \<not> is_file w file
          then raiseM (FileNotFoundError (step @ '': File not found'') (Some file)) w
          else bindM (stat_size file) (\<lambda>file_size.
                 if file_size < MIN_FILE_SIZE cfg
                 then raiseM (FileSizeError file file_size (MIN_FILE_SIZE cfg))
                 else catchM
                        (seqM (subprocess_run proc [''ffprobe'', ''-v'', ''error'', path_str file])
                              (returnM ()))
                        (\<lambda>e. case e of
                           CalledProcessError rc c out err \<Rightarrow>
                             raiseM (InvalidVideoError
                               (step @ '': Invalid video file - ffprobe output: '' @ err) (Some file))
                         | _ \<Rightarrow> raiseM e)) w)"

text \<open>
  \<^verbatim>\<open>validate_segments(directory, min_segments)\<close>. The thread pool maps
  \<^verbatim>\<open>validate_video_file\<close> over the listed segments and \<^verbatim>\<open>list(executor.map(...))\<close>
  raises what the first failing segment, in listing order, raised; the model validates
  the segments one after the other in that order (the interleaving of the probes in
  the pool is not modelled).
\<close>

definition validate_segments :: "proc \<Rightarrow> EncoderConfig \<Rightarrow> path \<Rightarrow> int \<Rightarrow> (unit, world) M" where
  "validate_segments proc cfg directory min_segments =
     (\<lambda>w. let segments = glob_suffix w directory ''.mkv''
          in if int (length segments) < min_segments
             then raiseM (ValidationError
                    (''Expected at least '' @ str_int min_segments @ '' segments, found ''
                       @ str_int (int (length segments))) None) w
             else forM segments (\<lambda>f. validate_video_file proc cfg f ''Segment validation'') w)"

definition validate_audio_tracks :: "proc \<Rightarrow> path \<Rightarrow> nat \<Rightarrow> path \<Rightarrow> (unit, world) M" where
  "validate_audio_tracks proc base_path expected_tracks working_dir =
     forM [0 ..< expected_tracks] (\<lambda>i.
       let audio_file = path_div working_dir (''audio-'' @ str_nat i @ ''.mkv'')
       in (\<lambda>w. if \<not> is_file w audio_file
               then raiseM (FileNotFoundError (''Audio track '' @ str_nat i @ '' missing'')
                              (Some audio_file)) w
               else catchM
                      (bindM (subprocess_run proc
                                [''ffprobe'', ''-v'', ''error'', ''-select_streams'', ''a'',
                                 ''-show_entries'', ''stream=codec_type'', ''-of'', ''csv=p=0'',
                                 path_str audio_file])
                         (\<lambda>stdout. if \<not> contains ''audio'' stdout
                                    then raiseM (ValidationError
                                           (''No audio stream found in track '' @ str_nat i)
                                           (Some audio_file))
                                    else returnM ()))
                      (\<lambda>e. case e of
                         CalledProcessError rc c out err \<Rightarrow>
                           raiseM (ProcessError ''Failed to probe audio file'' c rc out err)
                       | _ \<Rightarrow> raiseM e) w))"

text \<open>
  \<^verbatim>\<open>len(stdout.splitlines())\<close>; the output was read in text mode, so its line ends are
  \<^verbatim>\<open>\n\<close>.
\<close>

definition count_lines :: "string \<Rightarrow> nat" where
  "count_lines s = length (filter (\<lambda>c. c = NL) s) + (if s \<noteq> [] \<and> last s \<noteq> NL then 1 else 0)"

definition validate_final_output :: "proc \<Rightarrow> EncoderConfig \<Rightarrow> path \<Rightarrow> nat \<Rightarrow> (unit, world) M" where
  "validate_final_output proc cfg output_file expected_audio_tracks =
     seqM (validate_video_file proc cfg output_file ''Final output'')
       (catchM
          (bindM (subprocess_run proc
                    [''ffprobe'', ''-v'', ''error'', ''-select_streams'', ''a'',
                     ''-show_entries'', ''stream=index'', ''-of'', ''csv=p=0'',
                     path_str output_file])
             (\<lambda>stdout. let actual_tracks = count_lines stdout
                        in if actual_tracks \<noteq> expected_audio_tracks
                           then raiseM (ValidationError
                                  (''Final output has '' @ str_nat actual_tracks
                                     @ '' audio tracks, expected '' @ str_nat expected_audio_tracks)
                                  (Some output_file))
                           else returnM ()))
          (\<lambda>e. case e of
             CalledProcessError rc c out err \<Rightarrow>
               raiseM (ProcessError ''Failed to probe final output'' c rc out err)
           | _ \<Rightarrow> raiseM e))"

section \<open>Video stage (core/video.py)\<close>

definition mediainfo_cmd :: "path \<Rightarrow> string list" where
  "mediainfo_cmd file = [''mediainfo'', ''--Output=JSON'', path_str file]"

definition detect_dolby_vision :: "proc \<Rightarrow> path \<Rightarrow> (unit, world) M" where
  "detect_dolby_vision proc file =
     seqM (root_logger INFO ''Detecting Dolby Vision...'')
       (catchM
          (bindM (run_command proc (mediainfo_cmd file) ''Mediainfo detection'')
             (\<lambda>(rc, stdout, stderr).
                seqM (modifyM (\<lambda>w. w\<lparr>is_dolby_vision := contains ''Dolby Vision'' stdout\<rparr>))
                  (\<lambda>w. if is_dolby_vision w
                       then seqM (root_logger INFO ''Dolby Vision detected in input file'')
                              (root_logger WARNING
                                 ''Note: Dolby Vision encoding is currently disabled to prevent metadata corruption'') w
                       else root_logger INFO
                              ''No Dolby Vision detected, continuing with standard encoding'' w)))
          (\<lambda>e. case e of
             CalledProcessError rc c out err \<Rightarrow>
               seqM (root_logger WARNING (''Failed to detect Dolby Vision: '' @ err))
                 (seqM (root_logger WARNING ''Assuming no Dolby Vision present'')
                    (modifyM (\<lambda>w. w\<lparr>is_dolby_vision := False\<rparr>)))
           | _ \<Rightarrow> raiseM e))"

definition segment_cmd :: "EncoderConfig \<Rightarrow> path \<Rightarrow> path \<Rightarrow> string list" where
  "segment_cmd cfg input_path segments_dir =
     [''ffmpeg'', ''-v'', ''info'', ''-stats'', ''-i'', path_str input_path,
      ''-c:v'', ''copy'', ''-an'', ''-map'', ''0:v'',
      ''-segment_time'', SEGMENT_DURATION cfg, ''-reset_timestamps'', ''1'',
      ''-f'', ''segment'', path_str (path_div segments_dir ''%04d.mkv'')]"

definition segment_video :: "proc \<Rightarrow> EncoderConfig \<Rightarrow> path \<Rightarrow> path \<Rightarrow> (unit, world) M" where
  "segment_video proc cfg input_path segments_dir =
     catchM
       (seqM (run_command proc (segment_cmd cfg input_path segments_dir) ''Segmenting video'')
          (validate_segments proc cfg segments_dir 1))
       (\<lambda>e. case e of
          CalledProcessError rc c out err \<Rightarrow>
            raiseM (SegmentationError (''Failed to segment video: '' @ err) (Some input_path))
        | _ \<Rightarrow> raiseM (SegmentationError (str_exn e) (Some input_path)))"

definition encode_cmd :: "EncoderConfig \<Rightarrow> path \<Rightarrow> path \<Rightarrow> string list" where
  "encode_cmd cfg segment output_file =
     [''ab-av1'', ''auto-encode'', ''-e'', ''libsvtav1'',
      ''--svt'', ''tune=3'', ''--svt'', ''film-grain=8'', ''--svt'', ''film-grain-denoise=1'',
      ''--svt'', ''adaptive-film-grain=1'',
      ''--keyint'', KEYINT cfg, ''--min-vmaf'', str_int (MIN_VMAF cfg),
      ''--preset'', str_int (preset_value (PRESET cfg)),
      ''--vmaf'', ''n_subsample=8:pool=harmonic_mean'', ''--samples'', ''3'',
      ''--sample-duration'', ''1sec'', ''--verbose'',
      ''--input'', path_str segment, ''--output'', path_str output_file]"

definition encode_segment ::
  "proc \<Rightarrow> EncoderConfig \<Rightarrow> path \<Rightarrow> path \<Rightarrow> nat \<Rightarrow> nat \<Rightarrow> string \<Rightarrow> (unit, world) M" where
  "encode_segment proc cfg segment output_dir segment_num total_segments input_file =
     (let output_file = path_div output_dir (path_name segment)
      in seqM (stat_size segment)
           (catchM
              (seqM (run_command proc (encode_cmd cfg segment output_file)
                       (''Encoding segment '' @ str_nat segment_num @ ''/'' @ str_nat total_segments))
                 (seqM (stat_size segment)
                    (seqM (stat_size output_file)
                       (seqM (validate_video_file proc cfg output_file ''Segment encoding'')
                          (seqM (stat_size output_file) (returnM ()))))))
              (\<lambda>e. seqM (ctx_logger ERROR (''Failed to encode segment '' @ str_nat segment_num))
                      (raiseM e))))"

text \<open>\<^verbatim>\<open>enumerate(xs, start)\<close>.\<close>

definition enumerate_from :: "nat \<Rightarrow> 'a list \<Rightarrow> (nat \<times> 'a) list" where
  "enumerate_from start xs = zip [start ..< start + length xs] xs"

text \<open>One round of the loop of \<^verbatim>\<open>encode_segments\<close>, and the function.\<close>

definition encode_segments_step ::
  "proc \<Rightarrow> EncoderConfig \<Rightarrow> path \<Rightarrow> nat \<Rightarrow> string \<Rightarrow> nat \<times> path \<Rightarrow> (unit, world) M" where
  "encode_segments_step proc cfg encoded_dir total_segments input_file =
     (\<lambda>(i, segment).
        seqM (stat_size segment)
          (catchM
             (seqM (encode_segment proc cfg segment encoded_dir i total_segments input_file)
                (seqM (stat_size (path_div encoded_dir (path_name segment))) (returnM ())))
             (\<lambda>e. case e of
                EncodingError m f \<Rightarrow>
                  seqM (root_logger ERROR
                          (''Failed to encode segment '' @ str_nat i @ ''/''
                             @ str_nat total_segments @ '': '' @ str_exn e))
                    (raiseM e)
              | _ \<Rightarrow> raiseM e)))"

definition encode_segments :: "proc \<Rightarrow> EncoderConfig \<Rightarrow> path \<Rightarrow> path \<Rightarrow> string \<Rightarrow> (unit, world) M" where
  "encode_segments proc cfg segments_dir encoded_dir input_file =
     (\<lambda>w. let segments = sort (glob_suffix w segments_dir ''.mkv'');
              total_segments = length segments
          in seqM
               (forM (enumerate_from 1 segments)
                  (encode_segments_step proc cfg encoded_dir total_segments input_file))
               (validate_segments proc cfg encoded_dir (int total_segments)) w)"

definition manifest_line :: "path \<Rightarrow> string" where
  "manifest_line segment = ''file '' @ [SQ] @ escape_quotes (path_str segment) @ [SQ] @ [NL]"

definition concat_cmd :: "path \<Rightarrow> path \<Rightarrow> string list" where
  "concat_cmd concat_file output_file =
     [''ffmpeg'', ''-v'', ''info'', ''-stats'', ''-f'', ''concat'', ''-safe'', ''0'',
      ''-i'', path_str concat_file, ''-c'', ''copy'', ''-movflags'', ''+faststart'',
      path_str output_file]"

definition concatenate_segments :: "proc \<Rightarrow> EncoderConfig \<Rightarrow> path \<Rightarrow> path \<Rightarrow> (unit, world) M" where
  "concatenate_segments proc cfg encoded_dir output_file =
     catchM
       (\<lambda>w. let concat_file = path_div encoded_dir ''concat.txt'';
                segments = sort (glob_suffix w encoded_dir ''.mkv'')
            in seqM (write_text concat_file (concat (map manifest_line segments)))
                 (seqM (run_command proc (concat_cmd concat_file output_file) ''Concatenating segments'')
                    (seqM (unlink concat_file)
                       (seqM (stat_size output_file)
                          (validate_video_file proc cfg output_file ''Concatenation'')))) w)
       (\<lambda>e. case e of
          CalledProcessError rc c out err \<Rightarrow>
            raiseM (ConcatenationError (''Failed to concatenate segments: '' @ err) (Some output_file))
        | _ \<Rightarrow> raiseM (ConcatenationError (str_exn e) (Some output_file)))"

section \<open>Audio stage (core/audio.py)\<close>

text \<open>
  The value \<^verbatim>\<open>json.loads\<close> returns. A float is an exact rational, an infinity or a
  NaN; an object is the list of its members (their keys distinct, as in a Python dict).
\<close>

datatype pyfloat = Finite rat | Infinity bool | NaN

datatype json =
    JNull
  | JBool bool
  | JInt int
  | JFloat pyfloat
  | JStr string
  | JArr "json list"
  | JObj "(string \<times> json) list"

text \<open>
  The library functions whose results the model takes as given: the JSON parser,
  \<^verbatim>\<open>int()\<close> on a string, and the number and date formats of the summary.
\<close>

record pylib =
  json_loads :: "string \<Rightarrow> exn + json"
  int_of_str :: "string \<Rightarrow> int option"
  fmt_2f :: "rat \<Rightarrow> string"
  fmt_datetime :: "rat \<Rightarrow> string"

text \<open>Truthiness of a JSON value (\<^verbatim>\<open>if not audio_streams\<close>).\<close>

fun truthy :: "json \<Rightarrow> bool" where
  "truthy JNull = False"
| "truthy (JBool b) = b"
| "truthy (JInt n) = (n \<noteq> 0)"
| "truthy (JFloat f) = (f \<noteq> Finite 0)"
| "truthy (JStr s) = (s \<noteq> [])"
| "truthy (JArr xs) = (xs \<noteq> [])"
| "truthy (JObj kvs) = (kvs \<noteq> [])"

definition type_name :: "json \<Rightarrow> string" where
  "type_name v = (case v of JNull \<Rightarrow> ''NoneType'' | JBool b \<Rightarrow> ''bool'' | JInt n \<Rightarrow> ''int''
                  | JFloat f \<Rightarrow> ''float'' | JStr s \<Rightarrow> ''str'' | JArr xs \<Rightarrow> ''list''
                  | JObj kvs \<Rightarrow> ''dict'')"

text \<open>\<^verbatim>\<open>v.get(key, default)\<close>: only a dict has the method.\<close>

definition json_get :: "json \<Rightarrow> string \<Rightarrow> json \<Rightarrow> exn + json" where
  "json_get v key dflt =
     (case v of
        JObj kvs \<Rightarrow> Inr (case map_of kvs key of None \<Rightarrow> dflt | Some x \<Rightarrow> x)
      | _ \<Rightarrow> Inl (PyError ''AttributeError''
                 ([SQ] @ type_name v @ [SQ] @ '' object has no attribute '' @ [SQ] @ ''get'' @ [SQ])))"

text \<open>\<^verbatim>\<open>len(v)\<close> and the elements \<^verbatim>\<open>enumerate(v)\<close> walks through.\<close>

definition json_len :: "json \<Rightarrow> exn + nat" where
  "json_len v =
     (case v of
        JStr s \<Rightarrow> Inr (length s)
      | JArr xs \<Rightarrow> Inr (length xs)
      | JObj kvs \<Rightarrow> Inr (length kvs)
      | _ \<Rightarrow> Inl (PyError ''TypeError''
                 (''object of type '' @ [SQ] @ type_name v @ [SQ] @ '' has no len()'')))"

definition json_iter :: "json \<Rightarrow> json list" where
  "json_iter v =
     (case v of
        JStr s \<Rightarrow> map (\<lambda>c. JStr [c]) s
      | JArr xs \<Rightarrow> xs
      | JObj kvs \<Rightarrow> map (\<lambda>kv. JStr (fst kv)) kvs
      | _ \<Rightarrow> [])"

text \<open>\<^verbatim>\<open>int(v)\<close>; a float is truncated towards zero.\<close>

definition trunc :: "rat \<Rightarrow> int" where
  "trunc q = (if 0 \<le> q then \<lfloor>q\<rfloor> else \<lceil>q\<rceil>)"

definition py_int :: "pylib \<Rightarrow> json \<Rightarrow> exn + int" where
  "py_int lib v =
     (case v of
        JInt n \<Rightarrow> Inr n
      | JBool b \<Rightarrow> Inr (if b then 1 else 0)
      | JFloat f \<Rightarrow>
          (case f of
             Finite q \<Rightarrow> Inr (trunc q)
           | Infinity b \<Rightarrow> Inl (PyError ''OverflowError'' ''cannot convert float infinity to integer'')
           | NaN \<Rightarrow> Inl (PyError ''ValueError'' ''cannot convert float NaN to integer''))
      | JStr s \<Rightarrow>
          (case int_of_str lib s of
             Some n \<Rightarrow> Inr n
           | None \<Rightarrow> Inl (PyError ''ValueError''
                        (''invalid literal for int() with base 10: '' @ repr_str s)))
      | _ \<Rightarrow> Inl (PyError ''TypeError''
                 (''int() argument must be a string, a bytes-like object or a real number, not ''
                    @ [SQ] @ type_name v @ [SQ])))"

text \<open>A pure computation that may raise, as a step of a stage.\<close>

definition liftE :: "exn + 'a \<Rightarrow> ('a, 's) M" where
  "liftE r s = (r, s)"

definition audio_info_cmd :: "path \<Rightarrow> string list" where
  "audio_info_cmd input_path =
     [''ffprobe'', ''-v'', ''quiet'', ''-print_format'', ''json'', ''-show_streams'',
      ''-select_streams'', ''a'', path_str input_path]"

definition get_audio_info :: "proc \<Rightarrow> pylib \<Rightarrow> path \<Rightarrow> (json, world) M" where
  "get_audio_info proc lib input_path =
     catchM
       (bindM (run_command proc (audio_info_cmd input_path) ''Getting audio stream information'')
          (\<lambda>(rc, stdout, stderr).
             bindM (liftE (json_loads lib stdout)) (\<lambda>data.
               liftE (json_get data ''streams'' (JArr [])))))
       (\<lambda>e. case e of
          CalledProcessError rc c out err \<Rightarrow>
            raiseM (ProcessError ''Failed to get audio information''
                      (audio_info_cmd input_path) rc out err)
        | JSONDecodeError t \<Rightarrow>
            raiseM (AudioError (''Failed to parse audio information: '' @ t) None)
        | _ \<Rightarrow> raiseM e)"

definition audio_cmd :: "path \<Rightarrow> nat \<Rightarrow> int \<Rightarrow> path \<Rightarrow> string list" where
  "audio_cmd input_path track_index bitrate output_file =
     [''ffmpeg'', ''-v'', ''info'', ''-stats'', ''-i'', path_str input_path,
      ''-map'', ''0:a:'' @ str_nat track_index,
      ''-c:a'', ''libopus'', ''-af'', ''aformat=channel_layouts=7.1|5.1|stereo|mono'',
      ''-application'', ''audio'', ''-vbr'', ''on'', ''-compression_level'', ''10'',
      ''-frame_duration'', ''20'', ''-b:a'', str_int bitrate @ ''k'',
      ''-avoid_negative_ts'', ''make_zero'', path_str output_file]"

definition encode_audio_track ::
  "proc \<Rightarrow> EncoderConfig \<Rightarrow> path \<Rightarrow> nat \<Rightarrow> int \<Rightarrow> path \<Rightarrow> (path, world) M" where
  "encode_audio_track proc cfg input_path track_index channels working_dir =
     (let output_file = path_div working_dir (''audio-'' @ str_nat track_index @ ''.mkv'');
          bitrate = get_audio_bitrate cfg channels
      in catchM
           (seqM (run_command proc (audio_cmd input_path track_index bitrate output_file)
                    (''Encoding audio track '' @ str_nat track_index))
              (returnM output_file))
           (\<lambda>e. case e of
              CalledProcessError rc c out err \<Rightarrow>
                raiseM (AudioError (''Failed to encode audio track '' @ str_nat track_index
                                      @ '': '' @ err) (Some input_path))
            | _ \<Rightarrow> raiseM e))"

text \<open>The loop of \<^verbatim>\<open>encode_audio_tracks\<close>, with the list \<^verbatim>\<open>encoded_files\<close> it builds.\<close>

fun encode_tracks_loop ::
  "proc \<Rightarrow> pylib \<Rightarrow> EncoderConfig \<Rightarrow> path \<Rightarrow> path \<Rightarrow> (nat \<times> json) list \<Rightarrow> path list
     \<Rightarrow> (path list, world) M" where
  "encode_tracks_loop proc lib cfg input_path working_dir [] encoded_files =
     returnM encoded_files"
| "encode_tracks_loop proc lib cfg input_path working_dir ((i, stream) # rest) encoded_files =
     bindM (liftE (json_get stream ''channels'' (JInt 2))) (\<lambda>v.
       bindM (liftE (py_int lib v)) (\<lambda>channels.
         bindM (encode_audio_track proc cfg input_path i channels working_dir) (\<lambda>output_file.
           encode_tracks_loop proc lib cfg input_path working_dir rest
             (encoded_files @ [output_file]))))"

definition encode_audio_tracks ::
  "proc \<Rightarrow> pylib \<Rightarrow> EncoderConfig \<Rightarrow> path \<Rightarrow> path \<Rightarrow> (path list, world) M" where
  "encode_audio_tracks proc lib cfg input_path working_dir =
     bindM (get_audio_info proc lib input_path) (\<lambda>audio_streams.
       if \<not> truthy audio_streams
       then seqM (root_logger WARNING ''No audio streams found in input file'') (returnM [])
       else bindM (liftE (json_len audio_streams)) (\<lambda>n.
              bindM (encode_tracks_loop proc lib cfg input_path working_dir
                       (enumerate_from 0 (json_iter audio_streams)) [])
                (\<lambda>encoded_files.
                   seqM (validate_audio_tracks proc input_path n working_dir)
                     (returnM encoded_files))))"

definition remux_cmd :: "path \<Rightarrow> path list \<Rightarrow> path \<Rightarrow> string list" where
  "remux_cmd video_file audio_files output_file =
     [''ffmpeg'', ''-v'', ''info'', ''-stats'', ''-i'', path_str video_file]
     @ concat (map (\<lambda>a. [''-i'', path_str a]) audio_files)
     @ [''-map'', ''0:v'']
     @ concat (map (\<lambda>i. [''-map'', str_nat (i + 1) @ '':a'']) [0 ..< length audio_files])
     @ [''-c'', ''copy'', ''-movflags'', ''+faststart'', path_str output_file]"

definition remux_tracks ::
  "proc \<Rightarrow> EncoderConfig \<Rightarrow> path \<Rightarrow> path list \<Rightarrow> path \<Rightarrow> (unit, world) M" where
  "remux_tracks proc cfg video_file audio_files output_file =
     catchM
       (seqM (run_command proc (remux_cmd video_file audio_files output_file) ''Remuxing tracks'')
          (validate_final_output proc cfg output_file (length audio_files)))
       (\<lambda>e. case e of
          CalledProcessError rc c out err \<Rightarrow>
            raiseM (RemuxError (''Failed to remux tracks: '' @ err) (Some output_file))
        | _ \<Rightarrow> raiseM (RemuxError (str_exn e) (Some output_file)))"

section \<open>The encoder (core/encoder.py, VideoEncoder)\<close>

text \<open>
  The state of a \<^verbatim>\<open>VideoEncoder\<close>: its own attributes \<^verbatim>\<open>stats\<close> and
  \<^verbatim>\<open>processed_videos\<close>, and the world its processors work on.
\<close>

record state =
  stats :: "string \<rightharpoonup> ProcessingStats"
  processed_videos :: "string list"
  env :: world

definition in_env :: "('a, world) M \<Rightarrow> ('a, state) M" where
  "in_env m s = (case m (env s) of (r, w) \<Rightarrow> (r, s\<lparr>env := w\<rparr>))"

definition logger :: "level \<Rightarrow> string \<Rightarrow> (unit, state) M" where
  "logger lv msg = in_env (ctx_logger lv msg)"

text \<open>\<^verbatim>\<open>time.time()\<close>.\<close>

definition time_time :: "(rat, world) M" where
  "time_time w = (Inr (clock w), w)"

text \<open>\<^verbatim>\<open>self.stats[key].field = value\<close>.\<close>

definition update_stats :: "string \<Rightarrow> (ProcessingStats \<Rightarrow> ProcessingStats) \<Rightarrow> (unit, state) M" where
  "update_stats key f s =
     (case stats s key of
        None \<Rightarrow> (Inl (PyError ''KeyError'' (repr_str key)), s)
      | Some st \<Rightarrow> (Inr (), s\<lparr>stats := (stats s)(key \<mapsto> f st)\<rparr>))"

text \<open>The values of \<^verbatim>\<open>get_all_dirs()\<close>, in the order of the dict.\<close>

definition get_all_dirs :: "EncoderConfig \<Rightarrow> path list" where
  "get_all_dirs cfg = map (get_dir cfg) (rev (remdups (rev (DIRS cfg))))"

definition prepare_directories :: "EncoderConfig \<Rightarrow> (unit, state) M" where
  "prepare_directories cfg =
     seqM (logger INFO ''Preparing working directories'')
       (catchM (in_env (forM (get_all_dirs cfg) (mkdir True)))
          (\<lambda>e. raiseM (VideoEncoderError (''Failed to create directories: '' @ str_exn e) None)))"

definition get_input_files :: "EncoderConfig \<Rightarrow> (path list, state) M" where
  "get_input_files cfg s =
     (let input_dir = get_dir cfg ''input'';
          files = concat (map (\<lambda>fmt. glob_suffix (env s) input_dir (''.'' @ fmt))
                            (SUPPORTED_FORMATS cfg))
      in if files = []
         then raiseM (VideoEncoderError (''No input files found in '' @ path_str input_dir) None) s
         else returnM (sort files) s)"

text \<open>One round of the loop of \<^verbatim>\<open>cleanup_working_dirs\<close>, and the function.\<close>

definition reset_dir :: "path \<Rightarrow> (unit, world) M" where
  "reset_dir dir_path =
     seqM (\<lambda>w. if path_exists w dir_path then rmtree dir_path w else returnM () w)
       (mkdir False dir_path)"

definition cleanup_working_dirs :: "EncoderConfig \<Rightarrow> string \<Rightarrow> (unit, state) M" where
  "cleanup_working_dirs cfg vid_file =
     catchM
       (in_env (forM [''segments'', ''encoded_segments'', ''working'']
                  (\<lambda>dir_name. reset_dir (get_dir cfg dir_name))))
       (\<lambda>e. raiseM (CleanupError (''Failed to clean up directories: '' @ str_exn e) None))"

text \<open>The \<^verbatim>\<open>try\<close> block of \<^verbatim>\<open>process_video\<close>.\<close>

definition process_video_body ::
  "proc \<Rightarrow> pylib \<Rightarrow> EncoderConfig \<Rightarrow> path \<Rightarrow> string \<Rightarrow> (unit, state) M" where
  "process_video_body proc lib cfg input_path vid_file =
     seqM (cleanup_working_dirs cfg vid_file)
       (let segments_dir = get_dir cfg ''segments'';
            encoded_dir = get_dir cfg ''encoded_segments'';
            working_dir = get_dir cfg ''working'';
            output_dir = get_dir cfg ''output''
        in seqM (logger INFO ''Starting video processing'')
          (seqM (in_env (detect_dolby_vision proc input_path))
          (seqM (in_env (segment_video proc cfg input_path segments_dir))
          (seqM (\<lambda>s. update_stats vid_file
                        (\<lambda>st. st\<lparr>segment_count :=
                                  Some (length (glob_suffix (env s) segments_dir ''.mkv''))\<rparr>) s)
          (seqM (in_env (encode_segments proc cfg segments_dir encoded_dir (path_name input_path)))
          (let video_output = path_div working_dir (vid_file @ ''.mkv'')
           in seqM (in_env (concatenate_segments proc cfg encoded_dir video_output))
             (seqM (logger INFO ''Starting audio processing'')
             (bindM (in_env (encode_audio_tracks proc lib cfg input_path working_dir))
                (\<lambda>audio_files.
                   seqM (update_stats vid_file
                           (\<lambda>st. st\<lparr>audio_tracks := Some (length audio_files)\<rparr>))
                   (let final_output = path_div output_dir (vid_file @ ''.mkv'')
                    in seqM (in_env (remux_tracks proc cfg video_output audio_files final_output))
                      (bindM (in_env (stat_size final_output)) (\<lambda>sz.
                         seqM (update_stats vid_file (\<lambda>st. st\<lparr>output_size := Some sz\<rparr>))
                           (bindM (in_env time_time) (\<lambda>t.
                              seqM (update_stats vid_file (\<lambda>st. st\<lparr>end_time := Some t\<rparr>))
                                (logger INFO (''Completed processing: ''
                                                @ path_str input_path))))))))))))))))"

text \<open>The \<^verbatim>\<open>except Exception as e\<close> clause and the \<^verbatim>\<open>finally\<close> clause of \<^verbatim>\<open>process_video\<close>.\<close>

definition process_video_except :: "path \<Rightarrow> string \<Rightarrow> exn \<Rightarrow> (unit, state) M" where
  "process_video_except input_path vid_file e =
     seqM (logger ERROR (''Error processing '' @ path_str input_path @ '': '' @ str_exn e))
       (bindM (in_env time_time) (\<lambda>t.
          seqM (update_stats vid_file (\<lambda>st. st\<lparr>end_time := Some t\<rparr>))
            (raiseM e)))"

definition process_video_finally :: "EncoderConfig \<Rightarrow> string \<Rightarrow> (unit, state) M" where
  "process_video_finally cfg vid_file =
     seqM (in_env (set_current_file None))
       (catchM (cleanup_working_dirs cfg vid_file)
          (\<lambda>cleanup_error. logger ERROR (''Error during cleanup: '' @ str_exn cleanup_error)))"

text \<open>The statements of \<^verbatim>\<open>process_video\<close> before its \<^verbatim>\<open>try\<close>.\<close>

definition process_video_enter :: "path \<Rightarrow> nat \<Rightarrow> nat \<Rightarrow> (unit, state) M" where
  "process_video_enter input_path current total_files =
     (let vid_file = path_stem input_path
      in seqM (logger INFO (''Processing file '' @ str_nat current @ '' of '' @ str_nat total_files
                              @ '': '' @ path_str input_path))
           (bindM (in_env time_time) (\<lambda>t0.
              bindM (in_env (stat_size input_path)) (\<lambda>sz.
                seqM (modifyM (\<lambda>s. s\<lparr>stats := (stats s)(vid_file \<mapsto> mk_stats vid_file t0 (Some sz) None),
                                      processed_videos := processed_videos s @ [vid_file]\<rparr>))
                  (in_env (set_current_file (Some (path_name input_path))))))))"

definition process_video ::
  "proc \<Rightarrow> pylib \<Rightarrow> EncoderConfig \<Rightarrow> path \<Rightarrow> nat \<Rightarrow> nat \<Rightarrow> (unit, state) M" where
  "process_video proc lib cfg input_path current total_files =
     seqM (process_video_enter input_path current total_files)
       (finallyM
          (catchM (process_video_body proc lib cfg input_path (path_stem input_path))
             (process_video_except input_path (path_stem input_path)))
          (process_video_finally cfg (path_stem input_path)))"

text \<open>\<^verbatim>\<open>divmod(int(t), 3600)\<close> and \<^verbatim>\<open>divmod(remainder, 60)\<close>, printed as in the summary.\<close>

definition hms :: "rat \<Rightarrow> string" where
  "hms t = (let n = trunc t; hours = n div 3600; remainder = n mod 3600
            in str_int hours @ ''h '' @ str_int (remainder div 60) @ ''m ''
                 @ str_int (remainder mod 60) @ ''s'')"

definition str_opt_nat :: "nat option \<Rightarrow> string" where
  "str_opt_nat v = (case v of None \<Rightarrow> ''None'' | Some n \<Rightarrow> str_nat n)"

definition print_video_summary :: "pylib \<Rightarrow> string \<Rightarrow> (unit, state) M" where
  "print_video_summary lib vid_file s =
     (case stats s vid_file of
        None \<Rightarrow> (Inl (PyError ''KeyError'' (repr_str vid_file)), s)
      | Some st \<Rightarrow>
          seqM (logger INFO ([NL] @ vid_file @ '':''))
            (seqM (logger INFO (''  Duration: '' @ hms (duration st)))
            (seqM (logger INFO (''  Segments: '' @ str_opt_nat (segment_count st)))
            (seqM (logger INFO (''  Audio Tracks: '' @ str_opt_nat (audio_tracks st)))
               (case compression_ratio st of
                  None \<Rightarrow> returnM ()
                | Some r \<Rightarrow>
                    if r = 0 then returnM ()
                    else seqM (logger INFO (''  Compression Ratio: '' @ fmt_2f lib r @ ''x''))
                           (seqM (logger INFO (''  Input Size: ''
                                    @ fmt_2f lib (of_int (the (input_size st)) / 1024 / 1024) @ '' MB''))
                              (logger INFO (''  Output Size: ''
                                    @ fmt_2f lib (of_int (the (output_size st)) / 1024 / 1024)
                                    @ '' MB''))))))) s)"

text \<open>The loop of \<^verbatim>\<open>print_summary\<close> over \<^verbatim>\<open>self.processed_videos\<close>, and the function.\<close>

definition print_video_summaries :: "pylib \<Rightarrow> (unit, state) M" where
  "print_video_summaries lib = (\<lambda>s. forM (processed_videos s) (print_video_summary lib) s)"

definition print_summary :: "pylib \<Rightarrow> rat \<Rightarrow> (unit, state) M" where
  "print_summary lib start =
     bindM (in_env time_time) (\<lambda>end.
       seqM (logger INFO ([NL] @ ''=== Encoding Summary ===''))
         (seqM (logger INFO ''Overall Process:'')
         (seqM (logger INFO (''Start time: '' @ fmt_datetime lib start))
         (seqM (logger INFO (''End time: '' @ fmt_datetime lib end))
         (seqM (logger INFO (''Total Duration: '' @ hms (end - start)))
         (seqM (logger INFO ([NL] @ ''Individual Video Processing Times:''))
         (seqM (print_video_summaries lib)
            (logger INFO ([NL] @ ''Encoding workflow complete'')))))))))"

text \<open>
  The loop of \<^verbatim>\<open>run\<close> over the numbered input files, with its \<^verbatim>\<open>try\<close> around
  each job.
\<close>

definition run_step ::
  "proc \<Rightarrow> pylib \<Rightarrow> EncoderConfig \<Rightarrow> nat \<Rightarrow> nat \<times> path \<Rightarrow> (unit, state) M" where
  "run_step proc lib cfg total_files =
     (\<lambda>(i, input_file).
        catchM (process_video proc lib cfg input_file i total_files)
          (\<lambda>e. logger ERROR (''Failed to process '' @ path_str input_file @ '': '' @ str_exn e)))"

definition run_loop ::
  "proc \<Rightarrow> pylib \<Rightarrow> EncoderConfig \<Rightarrow> nat \<Rightarrow> (nat \<times> path) list \<Rightarrow> (unit, state) M" where
  "run_loop proc lib cfg total_files numbered =
     forM numbered (run_step proc lib cfg total_files)"

definition run_files ::
  "proc \<Rightarrow> pylib \<Rightarrow> EncoderConfig \<Rightarrow> path list \<Rightarrow> (unit, state) M" where
  "run_files proc lib cfg input_files =
     run_loop proc lib cfg (length input_files) (enumerate_from 1 input_files)"

definition run :: "proc \<Rightarrow> pylib \<Rightarrow> EncoderConfig \<Rightarrow> (unit, state) M" where
  "run proc lib cfg =
     bindM (in_env time_time) (\<lambda>start.
       seqM (logger INFO ''Starting video encoding workflow'')
         (finallyM
            (catchM
               (seqM (prepare_directories cfg)
                  (bindM (get_input_files cfg) (\<lambda>input_files.
                     seqM (logger INFO (''Found '' @ str_nat (length input_files)
                                          @ '' files to process''))
                       (seqM (run_files proc lib cfg input_files)
                          (print_summary lib start)))))
               (\<lambda>e. seqM (logger ERROR (''Fatal error in encoding workflow: '' @ str_exn e))
                       (raiseM e)))
            (catchM (cleanup_working_dirs cfg ''final'')
               (\<lambda>e. logger ERROR (''Failed to cleanup: '' @ str_exn e)))))"

section \<open>Notions used in the statements\<close>



text \<open>
  A computation keeps a component \<open>f\<close> of the state when it leaves it as it was, and
  extends a list-valued component when it only adds to its end.
\<close>

definition keeps :: "('s \<Rightarrow> 'b) \<Rightarrow> ('a, 's) M \<Rightarrow> bool" where
  "keeps f m = (\<forall>s. f (snd (m s)) = f s)"

definition extends :: "('s \<Rightarrow> 'b list) \<Rightarrow> ('a, 's) M \<Rightarrow> bool" where
  "extends f m = (\<forall>s. prefix (f s) (f (snd (m s))))"

text \<open>The encoder commands among the processes started so far, in the order they started.\<close>

definition is_encode :: "string list \<Rightarrow> bool" where
  "is_encode cmd = (take 1 cmd = [''ab-av1''])"

definition enc_cmds :: "world \<Rightarrow> string list list" where
  "enc_cmds w = filter is_encode (history w)"

text \<open>The encoder command of a segment, as \<^verbatim>\<open>encode_segment\<close> builds it.\<close>

definition enc_of :: "EncoderConfig \<Rightarrow> path \<Rightarrow> path \<Rightarrow> string list" where
  "enc_of cfg encoded_dir segment =
     encode_cmd cfg segment (path_div encoded_dir (path_name segment))"

text \<open>The records of the encoder's logger, without the current file they were made under.\<close>

definition messages :: "state \<Rightarrow> (level \<times> string) list" where
  "messages s = map (\<lambda>(lv, c, msg). (lv, msg)) (ctx_log (env s))"

text \<open>The records of the encoder's logger.\<close>

abbreviation slog :: "state \<Rightarrow> (level \<times> string option \<times> string) list" where
  "slog s \<equiv> ctx_log (env s)"

text \<open>Every video that was started has its statistics.\<close>

definition stats_known :: "state \<Rightarrow> bool" where
  "stats_known s = (set (processed_videos s) \<subseteq> dom (stats s))"

text \<open>The state after \<^verbatim>\<open>self.logger.set_current_file(None)\<close>.\<close>

definition cleared :: "state \<Rightarrow> state" where
  "cleared s = s\<lparr>env := (env s)\<lparr>current_file := None\<rparr>\<rparr>"

text \<open>Two worlds with the same file system and the same failing calls.\<close>

definition same_fs :: "world \<Rightarrow> world \<Rightarrow> bool" where
  "same_fs w w' = (dirs w = dirs w' \<and> faults w = faults w')"

section \<open>Example worlds and tools\<close>

definition world0 :: world where
  "world0 = \<lparr> dirs = Map.empty, faults = (\<lambda>_ _. None), clock = 0, on_path = (\<lambda>_. True),
               root_log = [], ctx_log = [], current_file = None, is_dolby_vision = False,
               history = [], writes = [] \<rparr>"

text \<open>A tool that exits with the given status and output, and one that cannot be started.\<close>

definition proc_exit :: "int \<Rightarrow> string \<Rightarrow> string \<Rightarrow> proc" where
  "proc_exit rc out err = (\<lambda>cmd w. (Inr (rc, out, err), w))"

definition proc_missing :: proc where
  "proc_missing =
     (\<lambda>cmd w. (Inl (PyError ''FileNotFoundError''
                      (''No such file or directory: '' @ concat (take 1 cmd))), w))"

definition lib0 :: pylib where
  "lib0 = \<lparr> json_loads = (\<lambda>s. Inl (JSONDecodeError ''Expecting value'')),
             int_of_str = (\<lambda>s. None), fmt_2f = (\<lambda>q. ''0.00''),
             fmt_datetime = (\<lambda>t. ''1970-01-01 00:00:00'') \<rparr>"

text \<open>A segments directory with two files, both above the minimum size.\<close>

definition seg_world :: world where
  "seg_world =
     world0\<lparr>dirs := [get_dir default_config ''segments'' \<mapsto>
                       [(''0000.mkv'', 2048), (''0001.mkv'', 4096)]]\<rparr>"

text \<open>One input file \<^verbatim>\<open>a.mkv\<close>, and a segment left over in the segments directory.\<close>

definition input_world :: world where
  "input_world =
     world0\<lparr>dirs := [get_dir default_config ''input'' \<mapsto> [(''a.mkv'', 5000)],
                      get_dir default_config ''segments'' \<mapsto> [(''0000.mkv'', 2048)]]\<rparr>"

definition input_a :: path where
  "input_a = path_div (get_dir default_config ''input'') ''a.mkv''"

definition state0 :: state where
  "state0 = \<lparr> stats = Map.empty, processed_videos = [], env = input_world \<rparr>"

text \<open>
  Segments listed out of order beside another file, and their encoded counterparts
  already in place.
\<close>

definition enc_world :: world where
  "enc_world =
     world0\<lparr>dirs := [get_dir default_config ''segments'' \<mapsto>
                       [(''0002.mkv'', 3000), (''0000.mkv'', 2048), (''notes.txt'', 10),
                        (''0001.mkv'', 4096)],
                      get_dir default_config ''encoded_segments'' \<mapsto>
                       [(''0001.mkv'', 1500), (''0002.mkv'', 1200), (''0000.mkv'', 1100)]]\<rparr>"

text \<open>A probe result with one audio stream that has no \<^verbatim>\<open>channels\<close> member.\<close>

definition lib_one :: pylib where
  "lib_one =
     lib0\<lparr>json_loads :=
             (\<lambda>s. Inr (JObj [(''streams'', JArr [JObj [(''codec_name'', JStr ''aac'')]])]))\<rparr>"

definition audio_world :: world where
  "audio_world =
     world0\<lparr>dirs := [get_dir default_config ''input'' \<mapsto> [(''a.mkv'', 5000)],
                      get_dir default_config ''working'' \<mapsto> [(''audio-0.mkv'', 900)]]\<rparr>"

text \<open>
  A tool that exits with status 1, leaves a partial segment behind and leaves the segments
  directory undeletable.
\<close>

definition proc_lock :: proc where
  "proc_lock =
     (\<lambda>cmd w. (Inr (1, [], ''boom''),
        w\<lparr>dirs := (dirs w)(get_dir default_config ''segments'' \<mapsto> [(''0000.mkv'', 10)]),
          faults := (\<lambda>op p. if op = Rmtree \<and> p = get_dir default_config ''segments''
                              then Some ''Permission denied'' else None)\<rparr>))"

text \<open>Two input files; and one input file on a machine without \<^verbatim>\<open>mediainfo\<close>.\<close>

definition input_b :: path where
  "input_b = path_div (get_dir default_config ''input'') ''b.mkv''"

definition state2 :: state where
  "state2 =
     \<lparr> stats = Map.empty, processed_videos = [],
       env = world0\<lparr>dirs := [get_dir default_config ''input'' \<mapsto>
                                 [(''b.mkv'', 7000), (''a.mkv'', 5000)]]\<rparr> \<rparr>"

definition state_no_mediainfo :: state where
  "state_no_mediainfo =
     \<lparr> stats = Map.empty, processed_videos = [],
       env = input_world\<lparr>on_path := (\<lambda>tool. tool \<noteq> ''mediainfo'')\<rparr> \<rparr>"

section \<open>Evaluation rules\<close>

lemmas monad_defs =
  returnM_def raiseM_def bindM_def seqM_def catchM_def finallyM_def modifyM_def liftE_def

lemmas fs_defs =
  stat_size_def file_size_def entries_def path_exists_def is_file_def rmtree_def mkdir_def
  write_text_def unlink_def glob_suffix_def endswith_def

lemmas path_defs =
  get_dir_def path_div_def path_stem_def path_name_def rfind_def default_config_def

lemmas str_defs =
  str_int_def str_nat.simps

lemmas log_defs =
  logger_def in_env_def ctx_logger_def log_context_def set_current_file_def root_logger_def
  time_time_def

lemmas proc_defs =
  run_command_def subprocess_run_def start_process_def proc_exit_def proc_missing_def

lemmas example_defs =
  world0_def seg_world_def input_world_def input_a_def state0_def lib0_def
  enc_world_def lib_one_def audio_world_def proc_lock_def input_b_def state2_def
  state_no_mediainfo_def

lemmas stage_defs =
  validate_video_file_def validate_segments_def validate_audio_tracks_def
  detect_dolby_vision_def mediainfo_cmd_def segment_video_def segment_cmd_def
  encode_segment_def encode_cmd_def encode_segments_step_def encode_segments_def
  concatenate_segments_def concat_cmd_def manifest_line_def escape_quotes_def
  get_audio_info_def audio_info_cmd_def encode_audio_track_def audio_cmd_def
  encode_audio_tracks_def json_get_def json_len_def json_iter_def py_int_def
  enumerate_from_def get_audio_bitrate_def dict_get_def SQ_def NL_def BSL_def


section \<open>Rules for components that are kept\<close>

lemma keepsD: "keeps f m \<Longrightarrow> f (snd (m s)) = f s"
  by (simp add: keeps_def)

lemma keepsD2: "keeps f m \<Longrightarrow> m s = (r, s') \<Longrightarrow> f s' = f s"
  by (metis keepsD snd_conv)

lemma keeps_returnM [intro!, simp]: "keeps f (returnM x)"
  by (simp add: keeps_def returnM_def)

lemma keeps_raiseM [intro!, simp]: "keeps f (raiseM e)"
  by (simp add: keeps_def raiseM_def)

lemma keeps_liftE [intro!, simp]: "keeps f (liftE r)"
  by (simp add: keeps_def liftE_def)

lemma keeps_bindM [intro!]:
  assumes "keeps f m" and "\<And>x. keeps f (k x)"
  shows "keeps f (bindM m k)"
  unfolding keeps_def
proof
  fix s
  obtain r s' where ms: "m s = (r, s')" by (cases "m s")
  with assms(1) have "f s' = f s" by (rule keepsD2)
  with ms assms(2) show "f (snd (bindM m k s)) = f s"
    by (cases r) (simp_all add: bindM_def keepsD)
qed

lemma keeps_seqM [intro!]: "keeps f m \<Longrightarrow> keeps f k \<Longrightarrow> keeps f (seqM m k)"
  by (simp add: seqM_def keeps_bindM)

lemma keeps_catchM [intro!]:
  assumes "keeps f m" and "\<And>e. keeps f (h e)"
  shows "keeps f (catchM m h)"
  unfolding keeps_def
proof
  fix s
  obtain r s' where ms: "m s = (r, s')" by (cases "m s")
  with assms(1) have "f s' = f s" by (rule keepsD2)
  with ms assms(2) show "f (snd (catchM m h s)) = f s"
    by (cases r) (simp_all add: catchM_def keepsD)
qed

lemma keeps_finallyM [intro!]:
  assumes "keeps f m" and "keeps f fin"
  shows "keeps f (finallyM m fin)"
  unfolding keeps_def
proof
  fix s
  obtain r s' where ms: "m s = (r, s')" by (cases "m s")
  obtain r2 s2 where fs: "fin s' = (r2, s2)" by (cases "fin s'")
  from ms assms(1) have "f s' = f s" by (rule keepsD2[rotated])
  moreover from fs assms(2) have "f s2 = f s'" by (rule keepsD2[rotated])
  ultimately show "f (snd (finallyM m fin s)) = f s"
    using ms fs by (cases r2) (simp_all add: finallyM_def)
qed

lemma keeps_forM [intro!]:
  assumes "\<And>x. x \<in> set xs \<Longrightarrow> keeps f (body x)"
  shows "keeps f (forM xs body)"
  using assms by (induction xs) (auto)

lemma keeps_modifyM: "(\<And>s. f (g s) = f s) \<Longrightarrow> keeps f (modifyM g)"
  by (simp add: keeps_def modifyM_def)

lemma keeps_if [intro!]:
  "keeps f a \<Longrightarrow> keeps f b \<Longrightarrow> keeps f (\<lambda>s. if c s then a s else b s)"
  by (simp add: keeps_def)

lemma keeps_pointwise: "(\<And>s0. keeps f (F s0)) \<Longrightarrow> keeps f (\<lambda>s. F s s)"
  by (simp add: keeps_def)

lemma keeps_root_logger_enc [intro!, simp]: "keeps enc_cmds (root_logger lv msg)"
  by (simp add: root_logger_def keeps_modifyM enc_cmds_def)

lemma keeps_ctx_logger_enc [intro!, simp]: "keeps enc_cmds (ctx_logger lv msg)"
  by (simp add: ctx_logger_def keeps_modifyM enc_cmds_def)

lemma keeps_stat_size [intro!, simp]: "keeps f (stat_size p)"
  by (simp add: keeps_def stat_size_def split: option.splits)

lemma start_process_history: "history (snd (start_process proc cmd w)) = history w @ [cmd]"
  by (cases "proc cmd w") (simp add: start_process_def)

lemma start_process_enc: "enc_cmds (snd (start_process proc cmd w)) = enc_cmds w @ (if is_encode cmd then [cmd] else [])"
  by (simp add: enc_cmds_def start_process_history)

lemma keeps_start_process_enc: "\<not> is_encode cmd \<Longrightarrow> keeps enc_cmds (start_process proc cmd)"
  by (simp add: keeps_def start_process_enc)

lemma keeps_case_prod [intro!]: "(\<And>a b c. keeps f (k a b c)) \<Longrightarrow> keeps f (case x of (a, b, c) \<Rightarrow> k a b c)"
  by (cases x) auto

lemma keeps_subprocess_run_enc: "\<not> is_encode cmd \<Longrightarrow> keeps enc_cmds (subprocess_run proc cmd)"
  unfolding subprocess_run_def
  by (intro keeps_bindM keeps_start_process_enc) (auto simp: split_def)

lemma keeps_run_command_enc: "\<not> is_encode cmd \<Longrightarrow> keeps enc_cmds (run_command proc cmd desc)"
  unfolding run_command_def
  by (intro keeps_bindM keeps_seqM keeps_start_process_enc) (auto simp: split_def)

lemma run_command_enc:
  "enc_cmds (snd (run_command proc cmd desc w)) = enc_cmds w @ (if is_encode cmd then [cmd] else [])"
proof -
  let ?w = "snd (root_logger INFO (''Running '' @ desc @ '': '' @ join_str '' '' cmd) w)"
  have 1: "enc_cmds ?w = enc_cmds w" by (simp add: keepsD)
  obtain r w1 where sp: "start_process proc cmd ?w = (r, w1)" by (cases "start_process proc cmd ?w")
  then have 2: "enc_cmds w1 = enc_cmds ?w @ (if is_encode cmd then [cmd] else [])"
    using start_process_enc [of proc cmd ?w] by simp
  have "snd (run_command proc cmd desc w) = w1"
    using sp by (cases r) (auto simp: run_command_def root_logger_def monad_defs split: prod.splits)
  with 1 2 show ?thesis by simp
qed

lemma keeps_validate_video_file_enc [intro!, simp]:
  "keeps enc_cmds (validate_video_file proc cfg file step)"
  unfolding validate_video_file_def
  apply (rule keeps_if)
   apply simp
  apply (intro keeps_bindM keeps_stat_size)
  apply (auto intro!: keeps_subprocess_run_enc simp: is_encode_def split: exn.splits)
  done

lemma keeps_validate_segments_enc [intro!, simp]:
  "keeps enc_cmds (validate_segments proc cfg d n)"
  unfolding validate_segments_def Let_def
  by (rule keeps_pointwise) (auto)

lemma is_encode_cmd [simp]: "is_encode (encode_cmd cfg seg out)"
  by (simp add: is_encode_def encode_cmd_def)

lemma snd_catch_seq:
  assumes "keeps f k" and "\<And>e. keeps f (h e)"
  shows "f (snd (catchM (seqM m k) h s)) = f (snd (m s))"
proof -
  obtain r s1 where ms: "m s = (r, s1)" by (cases "m s")
  show ?thesis
  proof (cases r)
    case (Inl e)
    with ms show ?thesis using assms(2) by (simp add: catchM_def seqM_def bindM_def keepsD)
  next
    case (Inr x)
    obtain r2 s2 where ks: "k s1 = (r2, s2)" by (cases "k s1")
    with assms(1) have "f s2 = f s1" by (rule keepsD2)
    with ms Inr ks show ?thesis using assms(2)
      by (cases r2) (simp_all add: catchM_def seqM_def bindM_def keepsD)
  qed
qed

lemma encode_segment_enc:
  "(enc_cmds (snd (encode_segment proc cfg seg ed i n inp w)) = enc_cmds w
      \<and> isl (fst (encode_segment proc cfg seg ed i n inp w)))
   \<or> enc_cmds (snd (encode_segment proc cfg seg ed i n inp w)) = enc_cmds w @ [enc_of cfg ed seg]"
proof -
  obtain r w1 where st: "stat_size seg w = (r, w1)" by (cases "stat_size seg w")
  then have w1: "w1 = w" by (auto simp: stat_size_def split: option.splits)
  show ?thesis
  proof (cases r)
    case (Inl e)
    with st w1 show ?thesis by (simp add: encode_segment_def Let_def seqM_def bindM_def)
  next
    case (Inr sz)
    let ?rest = "catchM
              (seqM (run_command proc (enc_of cfg ed seg)
                       (''Encoding segment '' @ str_nat i @ ''/'' @ str_nat n))
                 (seqM (stat_size seg)
                    (seqM (stat_size (path_div ed (path_name seg)))
                       (seqM (validate_video_file proc cfg (path_div ed (path_name seg)) ''Segment encoding'')
                          (seqM (stat_size (path_div ed (path_name seg))) (returnM ()))))))
              (\<lambda>e. seqM (ctx_logger ERROR (''Failed to encode segment '' @ str_nat i))
                      (raiseM e))"
    have "enc_cmds (snd (?rest w)) = enc_cmds (snd (run_command proc (enc_of cfg ed seg)
                       (''Encoding segment '' @ str_nat i @ ''/'' @ str_nat n) w))"
      by (rule snd_catch_seq) auto
    then have "enc_cmds (snd (?rest w)) = enc_cmds w @ [enc_of cfg ed seg]"
      by (simp add: run_command_enc enc_of_def)
    moreover have "encode_segment proc cfg seg ed i n inp w = ?rest w"
      using st w1 Inr by (simp add: encode_segment_def Let_def seqM_def bindM_def enc_of_def)
    ultimately show ?thesis by simp
  qed
qed

lemma encode_segments_step_enc:
  "(enc_cmds (snd (encode_segments_step proc cfg ed n inp (i, seg) w)) = enc_cmds w
      \<and> isl (fst (encode_segments_step proc cfg ed n inp (i, seg) w)))
   \<or> enc_cmds (snd (encode_segments_step proc cfg ed n inp (i, seg) w)) = enc_cmds w @ [enc_of cfg ed seg]"
proof -
  obtain r w1 where st: "stat_size seg w = (r, w1)" by (cases "stat_size seg w")
  then have w1: "w1 = w" by (auto simp: stat_size_def split: option.splits)
  show ?thesis
  proof (cases r)
    case (Inl e)
    with st w1 show ?thesis by (simp add: encode_segments_step_def seqM_def bindM_def)
  next
    case (Inr sz)
    let ?h = "(\<lambda>e. case e of
                          EncodingError m f \<Rightarrow>
                            seqM (root_logger ERROR
                                    (''Failed to encode segment '' @ str_nat i @ ''/''
                                       @ str_nat n @ '': '' @ str_exn e))
                              (raiseM e)
                        | _ \<Rightarrow> raiseM e) :: exn \<Rightarrow> (unit, world) M"
    let ?m = "encode_segment proc cfg seg ed i n inp"
    let ?k = "seqM (stat_size (path_div ed (path_name seg))) (returnM ())"
    have h: "\<And>e. keeps enc_cmds (?h e)" by (auto split: exn.splits)
    have eq: "encode_segments_step proc cfg ed n inp (i, seg) w = catchM (seqM ?m ?k) ?h w"
      using st w1 Inr by (simp add: encode_segments_step_def seqM_def bindM_def)
    have e1: "enc_cmds (snd (catchM (seqM ?m ?k) ?h w)) = enc_cmds (snd (?m w))"
      by (rule snd_catch_seq) (auto split: exn.splits)
    from encode_segment_enc [of proc cfg seg ed i n inp w]
    show ?thesis
    proof
      assume a: "enc_cmds (snd (?m w)) = enc_cmds w \<and> isl (fst (?m w))"
      then obtain e w2 where mw: "?m w = (Inl e, w2)" by (cases "?m w") (auto simp: isl_def)
      have "isl (fst (catchM (seqM ?m ?k) ?h w))"
        using mw by (cases e) (simp_all add: catchM_def seqM_def bindM_def raiseM_def root_logger_def modifyM_def)
      with a e1 eq show ?thesis by simp
    next
      assume "enc_cmds (snd (?m w)) = enc_cmds w @ [enc_of cfg ed seg]"
      with e1 eq show ?thesis by simp
    qed
  qed
qed

lemma enumerate_from_Cons: "enumerate_from a (x # xs) = (a, x) # enumerate_from (Suc a) xs"
  by (simp add: enumerate_from_def upt_rec)

lemma enumerate_from_Nil [simp]: "enumerate_from a [] = []"
  by (simp add: enumerate_from_def)

lemma encode_segments_loop_enc:
  "\<exists>k\<le>length xs.
     enc_cmds (snd (forM (enumerate_from a xs) (encode_segments_step proc cfg ed n inp) w))
       = enc_cmds w @ map (enc_of cfg ed) (take k xs)
     \<and> (fst (forM (enumerate_from a xs) (encode_segments_step proc cfg ed n inp) w) = Inr () \<longrightarrow> k = length xs)"
proof (induction xs arbitrary: a w)
  case Nil
  show ?case by (simp add: returnM_def)
next
  case (Cons x xs)
  let ?B = "encode_segments_step proc cfg ed n inp"
  obtain r w1 where b: "?B (a, x) w = (r, w1)" by (cases "?B (a, x) w")
  show ?case
  proof (cases r)
    case (Inl e)
    have res: "forM (enumerate_from a (x # xs)) ?B w = (Inl e, w1)"
      using b Inl by (simp add: enumerate_from_Cons seqM_def bindM_def)
    from encode_segments_step_enc [of proc cfg ed n inp a x w] b
    have "enc_cmds w1 = enc_cmds w \<or> enc_cmds w1 = enc_cmds w @ [enc_of cfg ed x]" by auto
    then show ?thesis
    proof
      assume "enc_cmds w1 = enc_cmds w"
      with res show ?thesis by (intro exI[of _ 0]) simp
    next
      assume "enc_cmds w1 = enc_cmds w @ [enc_of cfg ed x]"
      with res show ?thesis by (intro exI[of _ 1]) simp
    qed
  next
    case (Inr u)
    have res: "forM (enumerate_from a (x # xs)) ?B w = forM (enumerate_from (Suc a) xs) ?B w1"
      using b Inr by (simp add: enumerate_from_Cons seqM_def bindM_def)
    from encode_segments_step_enc [of proc cfg ed n inp a x w] b Inr
    have e1: "enc_cmds w1 = enc_cmds w @ [enc_of cfg ed x]" by auto
    from Cons.IH [of "Suc a" w1] obtain k where
      k: "k \<le> length xs"
         "enc_cmds (snd (forM (enumerate_from (Suc a) xs) ?B w1)) = enc_cmds w1 @ map (enc_of cfg ed) (take k xs)"
         "fst (forM (enumerate_from (Suc a) xs) ?B w1) = Inr () \<longrightarrow> k = length xs"
      by blast
    show ?thesis
      using k e1 res by (intro exI[of _ "Suc k"]) simp
  qed
qed

lemma encode_segments_eq:
  "encode_segments proc cfg sd ed inp w =
     seqM (forM (enumerate_from 1 (sort (glob_suffix w sd ''.mkv'')))
             (encode_segments_step proc cfg ed (length (sort (glob_suffix w sd ''.mkv''))) inp))
       (validate_segments proc cfg ed (int (length (sort (glob_suffix w sd ''.mkv''))))) w"
  by (simp only: encode_segments_def encode_segments_step_def Let_def)

lemma encode_segments_enc:
  "\<exists>k\<le>length (sort (glob_suffix w sd ''.mkv'')).
     enc_cmds (snd (encode_segments proc cfg sd ed inp w))
       = enc_cmds w @ map (enc_of cfg ed) (take k (sort (glob_suffix w sd ''.mkv'')))
     \<and> (fst (encode_segments proc cfg sd ed inp w) = Inr () \<longrightarrow>
          k = length (sort (glob_suffix w sd ''.mkv'')))"
proof -
  let ?xs = "sort (glob_suffix w sd ''.mkv'')"
  let ?loop = "forM (enumerate_from 1 ?xs) (encode_segments_step proc cfg ed (length ?xs) inp)"
  let ?val = "validate_segments proc cfg ed (int (length ?xs))"
  from encode_segments_loop_enc [of ?xs 1 proc cfg ed "length ?xs" inp w] obtain k where
    k: "k \<le> length ?xs"
       "enc_cmds (snd (?loop w)) = enc_cmds w @ map (enc_of cfg ed) (take k ?xs)"
       "fst (?loop w) = Inr () \<longrightarrow> k = length ?xs"
    by blast
  obtain r w1 where lw: "?loop w = (r, w1)" by (cases "?loop w")
  have "enc_cmds (snd (seqM ?loop ?val w)) = enc_cmds w1"
    using lw by (cases r) (simp_all add: seqM_def bindM_def keepsD)
  moreover have "fst (seqM ?loop ?val w) = Inr () \<longrightarrow> r = Inr ()"
    using lw by (cases r) (simp_all add: seqM_def bindM_def)
  ultimately show ?thesis
    using k lw unfolding encode_segments_eq by (intro exI[of _ k]) auto
qed

lemma path_div_le: "(path_div d a \<le> path_div d b) = (a \<le> b)"
  by (induction d) (auto simp: path_div_def)

lemma path_name_div [simp]: "path_name (path_div d a) = a"
  by (simp add: path_name_def path_div_def)

lemma sorted_names:
  assumes "sorted ps" and "\<forall>p\<in>set ps. \<exists>n. p = path_div d n"
  shows "sorted (map path_name ps)"
proof -
  have "sorted_wrt (\<lambda>p q. path_name p \<le> path_name q) ps"
  proof (rule sorted_wrt_mono_rel [where P = "(\<le>)"])
    fix p q assume "p \<in> set ps" "q \<in> set ps" "p \<le> q"
    with assms(2) obtain a b where "p = path_div d a" "q = path_div d b" by blast
    with \<open>p \<le> q\<close> show "path_name p \<le> path_name q" by (simp add: path_div_le)
  next
    from assms(1) show "sorted_wrt (\<le>) ps" by simp
  qed
  then show ?thesis by (simp add: sorted_wrt_map)
qed

lemma sorted_glob: "sorted (map path_name (sort (glob_suffix w d suf)))"
  by (rule sorted_names [where d = d]) (auto simp: glob_suffix_def)

lemma keeps_root_logger_writes [intro!, simp]: "keeps writes (root_logger lv msg)"
  by (simp add: root_logger_def keeps_modifyM)

lemma keeps_start_process_writes [intro!, simp]: "keeps writes (start_process proc cmd)"
  by (simp add: keeps_def start_process_def split: prod.splits)

lemma keeps_run_command_writes [intro!, simp]: "keeps writes (run_command proc cmd desc)"
  unfolding run_command_def by (auto simp: split_def)

lemma keeps_subprocess_run_writes [intro!, simp]: "keeps writes (subprocess_run proc cmd)"
  unfolding subprocess_run_def by (auto simp: split_def)

lemma keeps_unlink_writes [intro!, simp]: "keeps writes (unlink p)"
  by (simp add: keeps_def unlink_def split: option.splits)

lemma keeps_validate_video_file_writes [intro!, simp]:
  "keeps writes (validate_video_file proc cfg file step)"
  unfolding validate_video_file_def
  by (rule keeps_if) (auto split: exn.splits)

lemma write_text_writes:
  "writes (snd (write_text p text w)) =
     writes w @ (if faults w Mkfile p = None \<and> p \<noteq> [] \<and> dirs w (butlast p) \<noteq> None
                 then [(p, text)] else [])"
  by (auto simp: write_text_def split: option.splits)

lemma catchM_point: "m s = m' s \<Longrightarrow> catchM m h s = catchM m' h s"
  by (simp add: catchM_def)

lemma concatenate_segments_writes:
  "writes (snd (concatenate_segments proc cfg ed out w)) =
     writes w @ (if faults w Mkfile (path_div ed ''concat.txt'') = None \<and> dirs w ed \<noteq> None
                 then [(path_div ed ''concat.txt'',
                        concat (map manifest_line (sort (glob_suffix w ed ''.mkv''))))]
                 else [])"
proof -
  let ?cf = "path_div ed ''concat.txt''"
  let ?txt = "concat (map manifest_line (sort (glob_suffix w ed ''.mkv'')))"
  let ?k = "seqM (run_command proc (concat_cmd ?cf out) ''Concatenating segments'')
                    (seqM (unlink ?cf)
                       (seqM (stat_size out)
                          (validate_video_file proc cfg out ''Concatenation'')))"
  let ?h = "(\<lambda>e. case e of
          CalledProcessError rc c out' err \<Rightarrow>
            raiseM (ConcatenationError (''Failed to concatenate segments: '' @ err) (Some out))
        | _ \<Rightarrow> raiseM (ConcatenationError (str_exn e) (Some out))) :: exn \<Rightarrow> (unit, world) M"
  have "concatenate_segments proc cfg ed out w = catchM (seqM (write_text ?cf ?txt) ?k) ?h w"
    unfolding concatenate_segments_def by (rule catchM_point) (simp only: Let_def)
  moreover have "writes (snd (catchM (seqM (write_text ?cf ?txt) ?k) ?h w))
       = writes (snd (write_text ?cf ?txt w))"
    by (rule snd_catch_seq) (auto split: exn.splits)
  ultimately show ?thesis
    by (simp add: write_text_writes path_div_def)
qed

lemma encode_tracks_loop_no_channels:
  assumes "map_of kvs ''channels'' = None"
  shows "encode_tracks_loop proc lib cfg inp wd ((i, JObj kvs) # rest) acc =
      bindM (encode_audio_track proc cfg inp i 2 wd)
        (\<lambda>output_file. encode_tracks_loop proc lib cfg inp wd rest (acc @ [output_file]))"
  using assms by (simp add: json_get_def py_int_def liftE_def bindM_def fun_eq_iff)

lemma encode_audio_track_stereo_history:
  "history (snd (encode_audio_track proc default_config inp i 2 wd w)) =
     history w @ [audio_cmd inp i 128 (path_div wd (''audio-'' @ str_nat i @ ''.mkv''))]"
proof -
  let ?cmd = "audio_cmd inp i 128 (path_div wd (''audio-'' @ str_nat i @ ''.mkv''))"
  have b: "get_audio_bitrate default_config 2 = 128"
    by (simp add: get_audio_bitrate_def dict_get_def default_config_def)
  let ?rc = "run_command proc ?cmd (''Encoding audio track '' @ str_nat i)"
  obtain r w1 where rw: "?rc w = (r, w1)" by (cases "?rc w")
  have h: "history w1 = history w @ [?cmd]"
  proof -
    let ?w0 = "snd (root_logger INFO (''Running '' @ (''Encoding audio track '' @ str_nat i) @ '': '' @ join_str '' '' ?cmd) w)"
    obtain r0 w0' where sp: "start_process proc ?cmd ?w0 = (r0, w0')" by (cases "start_process proc ?cmd ?w0")
    then have "history w0' = history ?w0 @ [?cmd]" using start_process_history [of proc ?cmd ?w0] by simp
    moreover have "history ?w0 = history w" by (simp add: root_logger_def modifyM_def)
    moreover have "w1 = w0'"
      using rw sp by (cases r0) (auto simp: run_command_def root_logger_def monad_defs split: prod.splits if_splits)
    ultimately show ?thesis by simp
  qed
  have "snd (encode_audio_track proc default_config inp i 2 wd w) = w1"
    using rw by (cases r; (cases "projl r")?) (auto simp: encode_audio_track_def Let_def b monad_defs split: exn.splits)
  with h show ?thesis by simp
qed

section \<open>Rules for components that are extended\<close>

lemma extendsD: "extends f m \<Longrightarrow> prefix (f s) (f (snd (m s)))"
  by (simp add: extends_def)

lemma extendsD2: "extends f m \<Longrightarrow> m s = (r, s') \<Longrightarrow> prefix (f s) (f s')"
  by (metis extendsD snd_conv)

lemma extends_returnM [intro!, simp]: "extends f (returnM x)"
  by (simp add: extends_def returnM_def)

lemma extends_raiseM [intro!, simp]: "extends f (raiseM e)"
  by (simp add: extends_def raiseM_def)

lemma extends_liftE [intro!, simp]: "extends f (liftE r)"
  by (simp add: extends_def liftE_def)

lemma extends_bindM [intro!]:
  assumes "extends f m" and "\<And>x. extends f (k x)"
  shows "extends f (bindM m k)"
  unfolding extends_def
proof
  fix s
  obtain r s' where ms: "m s = (r, s')" by (cases "m s")
  with assms(1) have p: "prefix (f s) (f s')" by (rule extendsD2)
  show "prefix (f s) (f (snd (bindM m k s)))"
  proof (cases r)
    case (Inl e)
    with ms p show ?thesis by (simp add: bindM_def)
  next
    case (Inr x)
    from assms(2) have "prefix (f s') (f (snd (k x s')))" by (rule extendsD)
    with p ms Inr show ?thesis by (simp add: bindM_def)
  qed
qed

lemma extends_seqM [intro!]: "extends f m \<Longrightarrow> extends f k \<Longrightarrow> extends f (seqM m k)"
  by (simp add: seqM_def extends_bindM)

lemma extends_catchM [intro!]:
  assumes "extends f m" and "\<And>e. extends f (h e)"
  shows "extends f (catchM m h)"
  unfolding extends_def
proof
  fix s
  obtain r s' where ms: "m s = (r, s')" by (cases "m s")
  with assms(1) have p: "prefix (f s) (f s')" by (rule extendsD2)
  show "prefix (f s) (f (snd (catchM m h s)))"
  proof (cases r)
    case (Inr x)
    with ms p show ?thesis by (simp add: catchM_def)
  next
    case (Inl e)
    from assms(2) have "prefix (f s') (f (snd (h e s')))" by (rule extendsD)
    with p ms Inl show ?thesis by (simp add: catchM_def)
  qed
qed

lemma extends_finallyM [intro!]:
  assumes "extends f m" and "extends f fin"
  shows "extends f (finallyM m fin)"
  unfolding extends_def
proof
  fix s
  obtain r s' where ms: "m s = (r, s')" by (cases "m s")
  obtain r2 s2 where fs: "fin s' = (r2, s2)" by (cases "fin s'")
  from ms assms(1) have "prefix (f s) (f s')" by (rule extendsD2[rotated])
  moreover from fs assms(2) have "prefix (f s') (f s2)" by (rule extendsD2[rotated])
  ultimately have "prefix (f s) (f s2)" by (rule prefix_order.order_trans)
  then show "prefix (f s) (f (snd (finallyM m fin s)))"
    using ms fs by (cases r2) (simp_all add: finallyM_def)
qed

lemma extends_forM [intro!]:
  assumes "\<And>x. x \<in> set xs \<Longrightarrow> extends f (body x)"
  shows "extends f (forM xs body)"
  using assms by (induction xs) auto

lemma extends_if [intro!]:
  "extends f a \<Longrightarrow> extends f b \<Longrightarrow> extends f (\<lambda>s. if c s then a s else b s)"
  by (simp add: extends_def)

lemma extends_pointwise: "(\<And>s0. extends f (F s0)) \<Longrightarrow> extends f (\<lambda>s. F s s)"
  by (simp add: extends_def)

lemma extends_modifyM: "(\<And>s. prefix (f s) (f (g s))) \<Longrightarrow> extends f (modifyM g)"
  by (simp add: extends_def modifyM_def)

lemma extends_in_env [intro!]: "extends f m \<Longrightarrow> extends (\<lambda>s. f (env s)) (in_env m)"
  by (auto simp: extends_def in_env_def split: prod.splits) (metis snd_conv)

lemma cl_root_logger [intro!, simp]: "extends ctx_log (root_logger lv msg)"
  by (simp add: root_logger_def extends_modifyM)

lemma cl_ctx_logger [intro!, simp]: "extends ctx_log (ctx_logger lv msg)"
  by (simp add: ctx_logger_def extends_modifyM)

lemma cl_set_current_file [intro!, simp]: "extends ctx_log (set_current_file f)"
  by (simp add: set_current_file_def extends_modifyM)

lemma cl_time_time [intro!, simp]: "extends f time_time"
  by (simp add: extends_def time_time_def)

lemma cl_stat_size [intro!, simp]: "extends f (stat_size p)"
  by (simp add: extends_def stat_size_def split: option.splits)

lemma cl_rmtree [intro!, simp]: "extends ctx_log (rmtree d)"
  by (simp add: extends_def rmtree_def split: option.splits)

lemma cl_mkdir [intro!, simp]: "extends ctx_log (mkdir b d)"
  by (simp add: extends_def mkdir_def split: option.splits)

lemma cl_write_text [intro!, simp]: "extends ctx_log (write_text p t)"
  by (simp add: extends_def write_text_def split: option.splits)

lemma cl_unlink [intro!, simp]: "extends ctx_log (unlink p)"
  by (simp add: extends_def unlink_def split: option.splits)

lemma cl_start_process [intro!, simp]: "extends ctx_log (start_process proc cmd)"
  by (simp add: extends_def start_process_def split: prod.splits)

lemma cl_run_command [intro!, simp]: "extends ctx_log (run_command proc cmd desc)"
  unfolding run_command_def by (auto simp: split_def)

lemma cl_subprocess_run [intro!, simp]: "extends ctx_log (subprocess_run proc cmd)"
  unfolding subprocess_run_def by (auto simp: split_def)

lemma cl_validate_video_file [intro!, simp]: "extends ctx_log (validate_video_file proc cfg file step)"
  unfolding validate_video_file_def by (rule extends_if) (auto split: exn.splits)

lemma cl_validate_segments [intro!, simp]: "extends ctx_log (validate_segments proc cfg d n)"
  unfolding validate_segments_def Let_def by (rule extends_pointwise) auto

lemma cl_validate_audio_tracks [intro!, simp]: "extends ctx_log (validate_audio_tracks proc b n wd)"
  unfolding validate_audio_tracks_def Let_def
  by (rule extends_forM, rule extends_if) (auto split: exn.splits)

lemma cl_validate_final_output [intro!, simp]: "extends ctx_log (validate_final_output proc cfg out n)"
  unfolding validate_final_output_def Let_def by (auto split: exn.splits)

lemma cl_detect [intro!, simp]: "extends ctx_log (detect_dolby_vision proc file)"
  unfolding detect_dolby_vision_def
  by (auto simp: split_def extends_modifyM split: exn.splits)

lemma cl_segment_video [intro!, simp]: "extends ctx_log (segment_video proc cfg inp sd)"
  unfolding segment_video_def by (auto split: exn.splits)

lemma cl_encode_segment [intro!, simp]: "extends ctx_log (encode_segment proc cfg seg ed i n inp)"
  unfolding encode_segment_def Let_def by auto

lemma cl_encode_segments_step [intro!, simp]:
  "extends ctx_log (encode_segments_step proc cfg ed n inp x)"
  unfolding encode_segments_step_def by (cases x) (auto split: exn.splits)

lemma cl_encode_segments [intro!, simp]: "extends ctx_log (encode_segments proc cfg sd ed inp)"
  unfolding encode_segments_def Let_def
  by (rule extends_pointwise) (auto split: exn.splits)

lemma cl_concatenate [intro!, simp]: "extends ctx_log (concatenate_segments proc cfg ed out)"
  unfolding concatenate_segments_def Let_def
  by (rule extends_catchM, rule extends_pointwise) (auto split: exn.splits)

lemma cl_get_audio_info [intro!, simp]: "extends ctx_log (get_audio_info proc lib inp)"
  unfolding get_audio_info_def by (auto simp: split_def split: exn.splits)

lemma cl_encode_audio_track [intro!, simp]: "extends ctx_log (encode_audio_track proc cfg inp i ch wd)"
  unfolding encode_audio_track_def Let_def by (auto split: exn.splits)

lemma cl_encode_tracks_loop [intro!, simp]:
  "extends ctx_log (encode_tracks_loop proc lib cfg inp wd xs acc)"
  by (induction xs arbitrary: acc) auto

lemma cl_encode_audio_tracks [intro!, simp]: "extends ctx_log (encode_audio_tracks proc lib cfg inp wd)"
  unfolding encode_audio_tracks_def by auto

lemma cl_remux [intro!, simp]: "extends ctx_log (remux_tracks proc cfg v as out)"
  unfolding remux_tracks_def by (auto split: exn.splits)

section \<open>The commands started by the audio stage\<close>

lemma extends_case_prod3 [intro!]:
  "(\<And>a b c. extends f (k a b c)) \<Longrightarrow> extends f (case x of (a, b, c) \<Rightarrow> k a b c)"
  by (cases x) auto

lemma hs_root_logger [intro!, simp]: "extends history (root_logger lv msg)"
  by (simp add: root_logger_def extends_modifyM)

lemma hs_start_process [intro!, simp]: "extends history (start_process proc cmd)"
  by (simp add: extends_def start_process_history)

lemma hs_run_command [intro!, simp]: "extends history (run_command proc cmd desc)"
  unfolding run_command_def by (auto simp: split_def)

lemma hs_subprocess_run [intro!, simp]: "extends history (subprocess_run proc cmd)"
  unfolding subprocess_run_def by (auto simp: split_def)

lemma hs_encode_audio_track [intro!, simp]: "extends history (encode_audio_track proc cfg inp i ch wd)"
  unfolding encode_audio_track_def Let_def by (auto split: exn.splits)

lemma hs_encode_tracks_loop [intro!, simp]:
  "extends history (encode_tracks_loop proc lib cfg inp wd xs acc)"
  by (induction xs arbitrary: acc) auto

lemma hs_validate_audio_tracks [intro!, simp]: "extends history (validate_audio_tracks proc b n wd)"
  unfolding validate_audio_tracks_def Let_def
  by (rule extends_forM, rule extends_if) (auto split: exn.splits)

lemma prefix_set_mono: "prefix xs ys \<Longrightarrow> x \<in> set xs \<Longrightarrow> x \<in> set ys"
  by (auto simp: prefix_def)

lemma encode_tracks_loop_history:
  assumes "encode_tracks_loop proc lib default_config inp wd (enumerate_from a xs) acc w = (Inr files, w')"
      and "j < length xs" and "xs ! j = JObj kvs" and "map_of kvs ''channels'' = None"
  shows "audio_cmd inp (a + j) 128 (path_div wd (''audio-'' @ str_nat (a + j) @ ''.mkv''))
           \<in> set (history w')"
  using assms
proof (induction xs arbitrary: a acc w j)
  case Nil
  then show ?case by simp
next
  case (Cons x xs)
  let ?loop = "encode_tracks_loop proc lib default_config inp wd"
  from Cons.prems(1) obtain v where v: "json_get x ''channels'' (JInt 2) = Inr v"
    by (cases "json_get x ''channels'' (JInt 2)") (simp_all add: enumerate_from_Cons bindM_def liftE_def)
  from Cons.prems(1) v obtain ch where ch: "py_int lib v = Inr ch"
    by (cases "py_int lib v") (simp_all add: enumerate_from_Cons bindM_def liftE_def)
  obtain r w1 where t: "encode_audio_track proc default_config inp a ch wd w = (r, w1)"
    by (cases "encode_audio_track proc default_config inp a ch wd w")
  from Cons.prems(1) v ch t obtain out where out: "r = Inr out"
    by (cases r) (simp_all add: enumerate_from_Cons bindM_def liftE_def)
  from Cons.prems(1) v ch t out
  have rest: "?loop (enumerate_from (Suc a) xs) (acc @ [out]) w1 = (Inr files, w')"
    by (simp add: enumerate_from_Cons bindM_def liftE_def)
  show ?case
  proof (cases j)
    case 0
    with Cons.prems(3,4) v ch have "ch = 2"
      by (auto simp: json_get_def py_int_def)
    with t have "history w1 = history w @ [audio_cmd inp a 128 (path_div wd (''audio-'' @ str_nat a @ ''.mkv''))]"
      using encode_audio_track_stereo_history [of proc inp a wd w] by simp
    moreover have "prefix (history w1) (history w')"
      using rest by (rule extendsD2 [OF hs_encode_tracks_loop])
    ultimately show ?thesis using 0 by (auto intro: prefix_set_mono)
  next
    case (Suc j')
    with Cons.prems(2,3) have "j' < length xs" "xs ! j' = JObj kvs" by simp_all
    from Cons.IH [OF rest this Cons.prems(4)] Suc show ?thesis by simp
  qed
qed

lemma encode_audio_tracks_history:
  assumes gi: "fst (get_audio_info proc lib inp w) = Inr (JArr streams)"
      and ok: "fst (encode_audio_tracks proc lib default_config inp wd w) = Inr files"
      and j: "j < length streams" "streams ! j = JObj kvs" "map_of kvs ''channels'' = None"
  shows "audio_cmd inp j 128 (path_div wd (''audio-'' @ str_nat j @ ''.mkv''))
           \<in> set (history (snd (encode_audio_tracks proc lib default_config inp wd w)))"
proof -
  obtain w1 where g: "get_audio_info proc lib inp w = (Inr (JArr streams), w1)"
    using gi by (cases "get_audio_info proc lib inp w") simp
  from j(1) have ne: "streams \<noteq> []" by auto
  let ?loop = "encode_tracks_loop proc lib default_config inp wd (enumerate_from 0 streams) []"
  obtain r w2 where l: "?loop w1 = (r, w2)" by (cases "?loop w1")
  from ok g ne l obtain fs where fs: "r = Inr fs"
    by (cases r) (simp_all add: encode_audio_tracks_def bindM_def seqM_def liftE_def json_len_def json_iter_def)
  let ?val = "validate_audio_tracks proc inp (length streams) wd"
  obtain r3 w3 where vl: "?val w2 = (r3, w3)" by (cases "?val w2")
  have fin: "snd (encode_audio_tracks proc lib default_config inp wd w) = w3"
    using g ne l fs vl
    by (cases r3) (simp_all add: encode_audio_tracks_def bindM_def seqM_def liftE_def json_len_def json_iter_def returnM_def)
  from encode_tracks_loop_history [OF l [unfolded fs] j]
  have "audio_cmd inp j 128 (path_div wd (''audio-'' @ str_nat j @ ''.mkv'')) \<in> set (history w2)" by simp
  moreover have "prefix (history w2) (history w3)"
    using vl by (rule extendsD2 [OF hs_validate_audio_tracks])
  ultimately show ?thesis using fin by (auto intro: prefix_set_mono)
qed

section \<open>Failing tools\<close>











section \<open>Resetting the transient directories\<close>

lemma path_exists_same_fs: "same_fs w v \<Longrightarrow> path_exists w p = path_exists v p"
  by (simp add: same_fs_def path_exists_def is_file_def file_size_def entries_def)

lemma rmtree_same_fs:
  "same_fs w v \<Longrightarrow> fst (rmtree d w) = fst (rmtree d v) \<and> same_fs (snd (rmtree d w)) (snd (rmtree d v))"
  by (auto simp: same_fs_def rmtree_def split: option.splits)

lemma mkdir_same_fs:
  assumes "same_fs w v"
  shows "fst (mkdir b d w) = fst (mkdir b d v) \<and> same_fs (snd (mkdir b d w)) (snd (mkdir b d v))"
proof -
  have "path_exists w d = path_exists v d" using assms by (rule path_exists_same_fs)
  with assms show ?thesis
    by (auto simp: same_fs_def mkdir_def split: option.splits)
qed

lemma reset_dir_same_fs:
  assumes "same_fs w v"
  shows "fst (reset_dir d w) = fst (reset_dir d v)
         \<and> same_fs (snd (reset_dir d w)) (snd (reset_dir d v))"
proof -
  let ?a = "\<lambda>w. if path_exists w d then rmtree d w else returnM () w"
  have pe: "path_exists w d = path_exists v d" using assms by (rule path_exists_same_fs)
  have a: "fst (?a w) = fst (?a v) \<and> same_fs (snd (?a w)) (snd (?a v))"
    using assms pe rmtree_same_fs [OF assms, of d] by (simp add: returnM_def)
  obtain r w1 where 1: "?a w = (r, w1)" by (cases "?a w")
  obtain r' v1 where 2: "?a v = (r', v1)" by (cases "?a v")
  from a 1 2 have rr: "r' = r" and s: "same_fs w1 v1" by simp_all
  have rd: "\<And>x. reset_dir d x = seqM ?a (mkdir False d) x" by (simp add: reset_dir_def)
  show ?thesis
  proof (cases r)
    case (Inl e)
    with 1 2 rr s show ?thesis unfolding rd by (simp add: seqM_def bindM_def)
  next
    case (Inr u)
    with 1 2 rr mkdir_same_fs [OF s, of False d] show ?thesis
      unfolding rd by (simp add: seqM_def bindM_def)
  qed
qed

lemma rmtree_ok:
  "rmtree d w = (Inr (), w') \<Longrightarrow>
     w' = w\<lparr>dirs := (\<lambda>p. if take (length d) p = d then None else dirs w p)\<rparr>"
  by (simp add: rmtree_def split: option.splits if_splits)

lemma mkdir_False_ok:
  "mkdir False d w = (Inr (), w') \<Longrightarrow> w' = w\<lparr>dirs := (dirs w)(d \<mapsto> [])\<rparr>"
  by (simp add: mkdir_def split: option.splits if_splits)

lemma reset_dir_ok:
  assumes "reset_dir d w = (Inr (), w')"
  shows "dirs w' d = Some []"
    and "\<And>p. take (length d) p \<noteq> d \<Longrightarrow> dirs w' p = dirs w p"
    and "faults w' = faults w"
proof -
  let ?a = "\<lambda>w. if path_exists w d then rmtree d w else returnM () w"
  obtain r w1 where 1: "?a w = (r, w1)" by (cases "?a w")
  from assms 1 have r: "r = Inr ()" and m: "mkdir False d w1 = (Inr (), w')"
    by (cases r; simp add: reset_dir_def seqM_def bindM_def)+
  have w1: "w1 = w \<or> w1 = w\<lparr>dirs := (\<lambda>p. if take (length d) p = d then None else dirs w p)\<rparr>"
  proof (cases "path_exists w d")
    case True
    with 1 r have "rmtree d w = (Inr (), w1)" by simp
    then show ?thesis by (auto dest: rmtree_ok)
  next
    case False
    with 1 show ?thesis by (simp add: returnM_def)
  qed
  from mkdir_False_ok [OF m] have w': "w' = w1\<lparr>dirs := (dirs w1)(d \<mapsto> [])\<rparr>" .
  show "dirs w' d = Some []" using w' by simp
  show "faults w' = faults w" using w' w1 by auto
  show "dirs w' p = dirs w p" if "take (length d) p \<noteq> d" for p
  proof -
    from that have "p \<noteq> d" by auto
    with that w' w1 show ?thesis by auto
  qed
qed

lemma forM_same_fs:
  assumes "\<And>x w v. same_fs w v \<Longrightarrow>
             fst (body x w) = fst (body x v) \<and> same_fs (snd (body x w)) (snd (body x v))"
      and "same_fs w v"
  shows "fst (forM xs body w) = fst (forM xs body v)
         \<and> same_fs (snd (forM xs body w)) (snd (forM xs body v))"
  using assms(2)
proof (induction xs arbitrary: w v)
  case Nil
  then show ?case by (simp add: returnM_def)
next
  case (Cons x xs)
  obtain r w1 where a: "body x w = (r, w1)" by (cases "body x w")
  obtain r' v1 where b: "body x v = (r', v1)" by (cases "body x v")
  from assms(1) [OF Cons.prems, of x] a b have rr: "r' = r" and s1: "same_fs w1 v1" by simp_all
  show ?case
  proof (cases r)
    case (Inl e)
    with a b rr s1 show ?thesis by (simp add: seqM_def bindM_def)
  next
    case (Inr u)
    with a b rr Cons.IH [OF s1] show ?thesis by (simp add: seqM_def bindM_def)
  qed
qed

lemma cleanup_same_fs:
  assumes "same_fs (env s) (env t)"
  shows "fst (cleanup_working_dirs cfg v s) = fst (cleanup_working_dirs cfg v t)"
proof -
  let ?loop = "forM [''segments'', ''encoded_segments'', ''working'']
                  (\<lambda>dir_name. reset_dir (get_dir cfg dir_name))"
  have "fst (?loop (env s)) = fst (?loop (env t))"
    using forM_same_fs [where body = "\<lambda>dir_name. reset_dir (get_dir cfg dir_name)", OF _ assms]
      reset_dir_same_fs by blast
  then show ?thesis
    by (cases "?loop (env s)"; cases "?loop (env t)")
       (auto simp: cleanup_working_dirs_def catchM_def in_env_def raiseM_def split: sum.splits)
qed

lemma get_dir_take: "take (length (get_dir cfg a)) (get_dir cfg b) = get_dir cfg a \<longleftrightarrow> a = b"
  by (auto simp: get_dir_def path_div_def)

lemma cleanup_ok:
  assumes "fst (cleanup_working_dirs cfg v s) = Inr ()"
  shows "\<forall>d\<in>set [''segments'', ''encoded_segments'', ''working''].
           dirs (env (snd (cleanup_working_dirs cfg v s))) (get_dir cfg d) = Some []"
proof -
  let ?d1 = "get_dir cfg ''segments''" and ?d2 = "get_dir cfg ''encoded_segments''"
    and ?d3 = "get_dir cfg ''working''"
  obtain r1 w1 where 1: "reset_dir ?d1 (env s) = (r1, w1)" by (cases "reset_dir ?d1 (env s)")
  obtain r2 w2 where 2: "reset_dir ?d2 w1 = (r2, w2)" by (cases "reset_dir ?d2 w1")
  obtain r3 w3 where 3: "reset_dir ?d3 w2 = (r3, w3)" by (cases "reset_dir ?d3 w2")
  from assms 1 have r1: "r1 = Inr ()"
    by (cases r1) (auto simp: cleanup_working_dirs_def catchM_def in_env_def raiseM_def seqM_def bindM_def)
  from assms 1 2 r1 have r2: "r2 = Inr ()"
    by (cases r2) (auto simp: cleanup_working_dirs_def catchM_def in_env_def raiseM_def seqM_def bindM_def)
  from assms 1 2 3 r1 r2 have r3: "r3 = Inr ()"
    by (cases r3) (auto simp: cleanup_working_dirs_def catchM_def in_env_def raiseM_def seqM_def bindM_def)
  from 1 2 3 r1 r2 r3 have fin: "env (snd (cleanup_working_dirs cfg v s)) = w3"
    by (simp add: cleanup_working_dirs_def catchM_def in_env_def raiseM_def seqM_def bindM_def returnM_def)
  note a = reset_dir_ok [OF 1 [unfolded r1]] and b = reset_dir_ok [OF 2 [unfolded r2]]
    and c = reset_dir_ok [OF 3 [unfolded r3]]
  have "dirs w3 ?d3 = Some []" by (rule c(1))
  moreover have "dirs w3 ?d2 = Some []" using b(1) c(2) [of ?d2] by (simp add: get_dir_take)
  moreover have "dirs w3 ?d1 = Some []"
    using a(1) b(2) [of ?d1] c(2) [of ?d1] by (simp add: get_dir_take)
  ultimately show ?thesis using fin by simp
qed

section \<open>What a job keeps of the encoder\<close>

lemma keeps_in_env_outer: "(\<And>s w. f (s\<lparr>env := w\<rparr>) = f s) \<Longrightarrow> keeps f (in_env m)"
  by (auto simp: keeps_def in_env_def split: prod.splits)

lemma keeps_in_env_dom: "keeps (\<lambda>s. dom (stats s)) (in_env m)"
  by (rule keeps_in_env_outer) simp

lemma keeps_in_env_pv: "keeps processed_videos (in_env m)"
  by (rule keeps_in_env_outer) simp

lemma keeps_logger_dom: "keeps (\<lambda>s. dom (stats s)) (logger lv msg)"
  unfolding logger_def by (rule keeps_in_env_dom)

lemma keeps_logger_pv: "keeps processed_videos (logger lv msg)"
  unfolding logger_def by (rule keeps_in_env_pv)

lemma keeps_update_stats_dom: "keeps (\<lambda>s. dom (stats s)) (\<lambda>s. update_stats k (g s) s)"
  by (auto simp: keeps_def update_stats_def split: option.splits)

lemma keeps_update_stats_dom': "keeps (\<lambda>s. dom (stats s)) (update_stats k g)"
  using keeps_update_stats_dom [of k "\<lambda>_. g"] by simp

lemma keeps_update_stats_pv: "keeps processed_videos (\<lambda>s. update_stats k (g s) s)"
  by (auto simp: keeps_def update_stats_def split: option.splits)

lemma keeps_update_stats_pv': "keeps processed_videos (update_stats k g)"
  using keeps_update_stats_pv [of k "\<lambda>_. g"] by simp

lemma keeps_cleanup_dom: "keeps (\<lambda>s. dom (stats s)) (cleanup_working_dirs cfg v)"
  unfolding cleanup_working_dirs_def
  by (intro keeps_catchM keeps_in_env_dom keeps_raiseM)

lemma keeps_cleanup_pv: "keeps processed_videos (cleanup_working_dirs cfg v)"
  unfolding cleanup_working_dirs_def
  by (intro keeps_catchM keeps_in_env_pv keeps_raiseM)

lemma keeps_body_dom:
  "keeps (\<lambda>s. dom (stats s)) (process_video_body proc lib cfg inp vid)"
  unfolding process_video_body_def Let_def
  by (intro keeps_seqM keeps_bindM keeps_cleanup_dom keeps_logger_dom keeps_in_env_dom
        keeps_update_stats_dom keeps_update_stats_dom')

lemma keeps_body_pv:
  "keeps processed_videos (process_video_body proc lib cfg inp vid)"
  unfolding process_video_body_def Let_def
  by (intro keeps_seqM keeps_bindM keeps_cleanup_pv keeps_logger_pv keeps_in_env_pv
        keeps_update_stats_pv keeps_update_stats_pv')

section \<open>The except and finally clauses of a job\<close>

lemma enter_ok:
  assumes "process_video_enter inp i n s = (Inr (), s1)"
  shows "path_stem inp \<in> dom (stats s1)"
  using assms
  by (auto simp: process_video_enter_def Let_def monad_defs log_defs stat_size_def
           split: option.splits)

lemma except_raises:
  assumes "vid \<in> dom (stats s)"
  shows "fst (process_video_except inp vid E s) = Inl E"
    and "same_fs (env s) (env (snd (process_video_except inp vid E s)))"
  using assms
  by (auto simp: process_video_except_def monad_defs log_defs update_stats_def same_fs_def
           split: option.splits)

lemma keeps_cf_rmtree: "keeps current_file (rmtree d)"
  by (simp add: keeps_def rmtree_def split: option.splits)

lemma keeps_cf_mkdir: "keeps current_file (mkdir b d)"
  by (simp add: keeps_def mkdir_def split: option.splits)

lemma keeps_cf_reset_dir: "keeps current_file (reset_dir d)"
  unfolding reset_dir_def
  by (intro keeps_seqM keeps_if keeps_cf_rmtree keeps_cf_mkdir keeps_returnM)

lemma keeps_cl_rmtree: "keeps ctx_log (rmtree d)"
  by (simp add: keeps_def rmtree_def split: option.splits)

lemma keeps_cl_mkdir: "keeps ctx_log (mkdir b d)"
  by (simp add: keeps_def mkdir_def split: option.splits)

lemma keeps_cl_reset_dir: "keeps ctx_log (reset_dir d)"
  unfolding reset_dir_def
  by (intro keeps_seqM keeps_if keeps_cl_rmtree keeps_cl_mkdir keeps_returnM)

lemma keeps_in_env_inner: "keeps f m \<Longrightarrow> keeps (\<lambda>s. f (env s)) (in_env m)"
  by (auto simp: keeps_def in_env_def split: prod.splits) (metis snd_conv)

lemma keeps_cf_cleanup: "keeps (\<lambda>s. current_file (env s)) (cleanup_working_dirs cfg v)"
  unfolding cleanup_working_dirs_def
  by (intro keeps_catchM keeps_in_env_inner keeps_forM keeps_cf_reset_dir keeps_raiseM)

lemma keeps_cl_cleanup: "keeps (\<lambda>s. ctx_log (env s)) (cleanup_working_dirs cfg v)"
  unfolding cleanup_working_dirs_def
  by (intro keeps_catchM keeps_in_env_inner keeps_forM keeps_cl_reset_dir keeps_raiseM)

lemma finally_unfold:
  "process_video_finally cfg vid s =
     catchM (cleanup_working_dirs cfg vid)
       (\<lambda>cleanup_error. logger ERROR (''Error during cleanup: '' @ str_exn cleanup_error))
       (cleared s)"
  by (simp add: process_video_finally_def cleared_def monad_defs log_defs)

lemma cleanup_cleared: "fst (cleanup_working_dirs cfg vid (cleared s)) = fst (cleanup_working_dirs cfg vid s)"
  by (rule cleanup_same_fs) (simp add: cleared_def same_fs_def)

lemma finally_returns: "fst (process_video_finally cfg vid s) = Inr ()"
  unfolding finally_unfold
  by (cases "cleanup_working_dirs cfg vid (cleared s)")
     (auto simp: catchM_def logger_def in_env_def ctx_logger_def modifyM_def split: sum.splits)

lemma finally_current_file: "current_file (env (snd (process_video_finally cfg vid s))) = None"
proof -
  obtain r s1 where c: "cleanup_working_dirs cfg vid (cleared s) = (r, s1)"
    by (cases "cleanup_working_dirs cfg vid (cleared s)")
  from keepsD2 [OF keeps_cf_cleanup c] have "current_file (env s1) = None"
    by (simp add: cleared_def)
  with c show ?thesis unfolding finally_unfold
    by (cases r) (simp_all add: catchM_def logger_def in_env_def ctx_logger_def modifyM_def)
qed

lemma finally_dirs:
  assumes "fst (cleanup_working_dirs cfg vid s) = Inr ()"
  shows "\<forall>d\<in>set [''segments'', ''encoded_segments'', ''working''].
           dirs (env (snd (process_video_finally cfg vid s))) (get_dir cfg d) = Some []"
proof -
  from assms have ok: "fst (cleanup_working_dirs cfg vid (cleared s)) = Inr ()"
    by (simp add: cleanup_cleared)
  then have "snd (process_video_finally cfg vid s) = snd (cleanup_working_dirs cfg vid (cleared s))"
    unfolding finally_unfold
    by (cases "cleanup_working_dirs cfg vid (cleared s)") (simp add: catchM_def)
  with cleanup_ok [OF ok] show ?thesis by simp
qed

lemma finally_logs:
  assumes "fst (cleanup_working_dirs cfg vid s) = Inl ce"
  shows "ctx_log (env (snd (process_video_finally cfg vid s))) =
           ctx_log (env s) @ [(ERROR, None, ''Error during cleanup: '' @ str_exn ce)]"
proof -
  obtain r s1 where c: "cleanup_working_dirs cfg vid (cleared s) = (r, s1)"
    by (cases "cleanup_working_dirs cfg vid (cleared s)")
  from assms c have r: "r = Inl ce" using cleanup_cleared [of cfg vid s] by simp
  from keepsD2 [OF keeps_cf_cleanup c] have cf: "current_file (env s1) = None"
    by (simp add: cleared_def)
  from keepsD2 [OF keeps_cl_cleanup c] have cl: "ctx_log (env s1) = ctx_log (env s)"
    by (simp add: cleared_def)
  from c r cf cl show ?thesis unfolding finally_unfold
    by (simp add: catchM_def logger_def in_env_def ctx_logger_def modifyM_def log_context_def)
qed

lemma process_video_unfold:
  assumes enter: "process_video_enter inp i n s = (Inr (), s1)"
      and job: "catchM (process_video_body proc lib cfg inp (path_stem inp))
                  (process_video_except inp (path_stem inp)) s1 = (r, s2)"
  shows "process_video proc lib cfg inp i n s =
           (r, snd (process_video_finally cfg (path_stem inp) s2))"
proof -
  obtain r' s3 where f: "process_video_finally cfg (path_stem inp) s2 = (r', s3)"
    by (cases "process_video_finally cfg (path_stem inp) s2")
  with finally_returns [of cfg "path_stem inp" s2] have "r' = Inr ()" by simp
  with enter job f show ?thesis
    by (simp add: process_video_def seqM_def bindM_def finallyM_def)
qed

section \<open>The log of the encoder only grows\<close>

lemma sl_in_env: "extends ctx_log m \<Longrightarrow> extends slog (in_env m)"
  by (rule extends_in_env)

lemma sl_logger: "extends slog (logger lv msg)"
  unfolding logger_def by (rule sl_in_env) (rule cl_ctx_logger)

lemma sl_update_stats: "extends slog (\<lambda>s. update_stats k (g s) s)"
  by (auto simp: extends_def update_stats_def split: option.splits)

lemma sl_update_stats': "extends slog (update_stats k g)"
  using sl_update_stats [of k "\<lambda>_. g"] by simp

lemma cl_reset_dir: "extends ctx_log (reset_dir d)"
  unfolding reset_dir_def
  by (intro extends_seqM extends_if cl_rmtree cl_mkdir extends_returnM)

lemma sl_cleanup: "extends slog (cleanup_working_dirs cfg v)"
  unfolding cleanup_working_dirs_def
  by (intro extends_catchM sl_in_env extends_forM cl_reset_dir extends_raiseM)

lemma sl_body: "extends slog (process_video_body proc lib cfg inp vid)"
  unfolding process_video_body_def Let_def
  by (intro extends_seqM extends_bindM sl_cleanup sl_logger sl_in_env sl_update_stats
        sl_update_stats' cl_detect cl_segment_video cl_encode_segments cl_concatenate
        cl_encode_audio_tracks cl_remux cl_stat_size cl_time_time)

lemma sl_except: "extends slog (process_video_except inp vid e)"
  unfolding process_video_except_def
  by (intro extends_seqM extends_bindM sl_logger sl_in_env sl_update_stats' cl_time_time
        extends_raiseM)

lemma sl_finally: "extends slog (process_video_finally cfg vid)"
  unfolding process_video_finally_def
  by (intro extends_seqM extends_catchM sl_in_env cl_set_current_file sl_cleanup sl_logger)

lemma sl_enter: "extends slog (process_video_enter inp i n)"
  unfolding process_video_enter_def Let_def
  by (intro extends_seqM extends_bindM sl_logger sl_in_env cl_time_time cl_stat_size
        cl_set_current_file extends_modifyM) simp

lemma sl_process_video: "extends slog (process_video proc lib cfg inp i n)"
  unfolding process_video_def
  by (intro extends_seqM extends_finallyM extends_catchM sl_enter sl_body sl_except sl_finally)

lemma enter_logs_first:
  "\<exists>c. prefix (slog s @ [(INFO, c, ''Processing file '' @ str_nat i @ '' of '' @ str_nat n
                             @ '': '' @ path_str inp)])
         (slog (snd (process_video_enter inp i n s)))"
proof -
  let ?msg = "''Processing file '' @ str_nat i @ '' of '' @ str_nat n @ '': '' @ path_str inp"
  let ?rest = "bindM (in_env time_time) (\<lambda>t0.
              bindM (in_env (stat_size inp)) (\<lambda>sz.
                seqM (modifyM (\<lambda>s. s\<lparr>stats := (stats s)(path_stem inp \<mapsto> mk_stats (path_stem inp) t0 (Some sz) None),
                                      processed_videos := processed_videos s @ [path_stem inp]\<rparr>))
                  (in_env (set_current_file (Some (path_name inp))))))"
  obtain s1 where l: "logger INFO ?msg s = (Inr (), s1)"
    and s1: "slog s1 = slog s @ [(INFO, log_context (env s), ?msg)]"
    by (simp add: logger_def in_env_def ctx_logger_def modifyM_def)
  have ext: "extends slog ?rest"
    by (intro extends_seqM extends_bindM sl_in_env cl_time_time cl_stat_size
        cl_set_current_file extends_modifyM) simp
  have "process_video_enter inp i n s = ?rest s1"
    using l by (simp add: process_video_enter_def Let_def seqM_def bindM_def)
  with extendsD [OF ext, of s1] s1 show ?thesis by auto
qed

section \<open>The loop over the input files and the summary\<close>

lemma keeps_except_dom: "keeps (\<lambda>s. dom (stats s)) (process_video_except inp vid e)"
  unfolding process_video_except_def
  by (intro keeps_seqM keeps_bindM keeps_logger_dom keeps_in_env_dom keeps_update_stats_dom'
        keeps_raiseM)

lemma keeps_except_pv: "keeps processed_videos (process_video_except inp vid e)"
  unfolding process_video_except_def
  by (intro keeps_seqM keeps_bindM keeps_logger_pv keeps_in_env_pv keeps_update_stats_pv'
        keeps_raiseM)

lemma keeps_finally_dom: "keeps (\<lambda>s. dom (stats s)) (process_video_finally cfg vid)"
  unfolding process_video_finally_def
  by (intro keeps_seqM keeps_catchM keeps_in_env_dom keeps_cleanup_dom keeps_logger_dom)

lemma keeps_finally_pv: "keeps processed_videos (process_video_finally cfg vid)"
  unfolding process_video_finally_def
  by (intro keeps_seqM keeps_catchM keeps_in_env_pv keeps_cleanup_pv keeps_logger_pv)

lemma enter_inv: "stats_known s \<Longrightarrow> stats_known (snd (process_video_enter inp i n s))"
  by (auto simp: stats_known_def process_video_enter_def Let_def monad_defs log_defs stat_size_def
           split: option.splits)

lemma process_video_inv:
  assumes "stats_known s"
  shows "stats_known (snd (process_video proc lib cfg inp i n s))"
proof -
  let ?J = "finallyM
          (catchM (process_video_body proc lib cfg inp (path_stem inp))
             (process_video_except inp (path_stem inp)))
          (process_video_finally cfg (path_stem inp))"
  have kd: "keeps (\<lambda>s. dom (stats s)) ?J"
    by (intro keeps_finallyM keeps_catchM keeps_body_dom keeps_except_dom keeps_finally_dom)
  have kp: "keeps processed_videos ?J"
    by (intro keeps_finallyM keeps_catchM keeps_body_pv keeps_except_pv keeps_finally_pv)
  obtain r1 s1 where e: "process_video_enter inp i n s = (r1, s1)"
    by (cases "process_video_enter inp i n s")
  with enter_inv [OF assms, of inp i n] have i1: "stats_known s1" by simp
  show ?thesis
  proof (cases r1)
    case (Inl x)
    with e i1 show ?thesis by (simp add: process_video_def seqM_def bindM_def)
  next
    case (Inr u)
    with e have "process_video proc lib cfg inp i n s = ?J s1"
      by (simp add: process_video_def seqM_def bindM_def)
    with i1 keepsD [OF kd, of s1] keepsD [OF kp, of s1] show ?thesis
      by (simp add: stats_known_def)
  qed
qed

lemma run_loop_eq: "run_loop proc lib cfg n xs = forM xs (run_step proc lib cfg n)"
  by (simp add: run_loop_def)

lemma logger_result: "logger lv msg s = (Inr (), snd (logger lv msg s))"
  by (simp add: logger_def in_env_def ctx_logger_def modifyM_def)

lemma logger_inv: "stats_known (snd (logger lv msg s)) = stats_known s"
  by (simp add: stats_known_def logger_def in_env_def ctx_logger_def modifyM_def)

lemma run_step_returns: "fst (run_step proc lib cfg n x s) = Inr ()"
proof (cases x)
  case (Pair i f)
  obtain r s1 where p: "process_video proc lib cfg f i n s = (r, s1)"
    by (cases "process_video proc lib cfg f i n s")
  show ?thesis using Pair p logger_result
    by (cases r) (simp_all add: run_step_def catchM_def, metis fst_conv)
qed

lemma run_step_inv: "stats_known s \<Longrightarrow> stats_known (snd (run_step proc lib cfg n x s))"
proof (cases x)
  case (Pair i f)
  assume a: "stats_known s"
  obtain r s1 where p: "process_video proc lib cfg f i n s = (r, s1)"
    by (cases "process_video proc lib cfg f i n s")
  with process_video_inv [OF a, of proc lib cfg f i n] have "stats_known s1" by simp
  then show ?thesis using Pair p
    by (cases r) (simp_all add: run_step_def catchM_def logger_inv)
qed

lemma sl_run_step: "extends slog (run_step proc lib cfg n x)"
  unfolding run_step_def
  by (cases x) (auto intro!: extends_catchM sl_process_video sl_logger)

lemma run_loop_returns: "fst (run_loop proc lib cfg n xs s) = Inr ()"
  unfolding run_loop_eq
proof (induction xs arbitrary: s)
  case Nil
  show ?case by (simp add: returnM_def)
next
  case (Cons x xs)
  obtain r s1 where st: "run_step proc lib cfg n x s = (r, s1)"
    by (cases "run_step proc lib cfg n x s")
  with run_step_returns [of proc lib cfg n x s] have "r = Inr ()" by simp
  with st Cons.IH [of s1] show ?case by (simp add: seqM_def bindM_def)
qed

lemma run_loop_inv: "stats_known s \<Longrightarrow> stats_known (snd (run_loop proc lib cfg n xs s))"
  unfolding run_loop_eq
proof (induction xs arbitrary: s)
  case Nil
  then show ?case by (simp add: returnM_def)
next
  case (Cons x xs)
  obtain r s1 where st: "run_step proc lib cfg n x s = (r, s1)"
    by (cases "run_step proc lib cfg n x s")
  with run_step_returns [of proc lib cfg n x s] have r: "r = Inr ()" by simp
  from st run_step_inv [OF Cons.prems, of proc lib cfg n x] have "stats_known s1" by simp
  from Cons.IH [OF this] st r show ?case by (simp add: seqM_def bindM_def)
qed

lemma sl_run_loop: "extends slog (run_loop proc lib cfg n xs)"
  unfolding run_loop_eq by (intro extends_forM sl_run_step)

lemma run_loop_append:
  "run_loop proc lib cfg n (xs @ ys) s
     = run_loop proc lib cfg n ys (snd (run_loop proc lib cfg n xs s))"
proof (induction xs arbitrary: s)
  case Nil
  show ?case by (simp add: run_loop_eq returnM_def)
next
  case (Cons x xs)
  obtain r s1 where st: "run_step proc lib cfg n x s = (r, s1)"
    by (cases "run_step proc lib cfg n x s")
  with run_step_returns [of proc lib cfg n x s] have r: "r = Inr ()" by simp
  from Cons.IH [of s1] st r show ?case by (simp add: run_loop_eq seqM_def bindM_def)
qed

lemma seqM_logger: "seqM (logger lv msg) k s = k (snd (logger lv msg s))"
  by (simp add: seqM_def bindM_def logger_def in_env_def ctx_logger_def modifyM_def)

lemma logger_fst [simp]: "fst (logger lv msg s) = Inr ()"
  by (simp add: logger_def in_env_def ctx_logger_def modifyM_def)

lemma logger_stats [simp]: "stats (snd (logger lv msg s)) = stats s"
  by (simp add: logger_def in_env_def ctx_logger_def modifyM_def)

lemma logger_pv [simp]: "processed_videos (snd (logger lv msg s)) = processed_videos s"
  by (simp add: logger_def in_env_def ctx_logger_def modifyM_def)

lemma logger_slog: "slog (snd (logger lv msg s)) = slog s @ [(lv, log_context (env s), msg)]"
  by (simp add: logger_def in_env_def ctx_logger_def modifyM_def)

lemma print_video_summary_ok:
  assumes "vid \<in> dom (stats s)"
  shows "fst (print_video_summary lib vid s) = Inr ()
         \<and> stats (snd (print_video_summary lib vid s)) = stats s"
  using assms
  by (auto simp: print_video_summary_def seqM_logger returnM_def split: option.splits)

lemma sl_print_video_summary: "extends slog (print_video_summary lib vid)"
proof -
  have "prefix (slog s) (slog (snd (print_video_summary lib vid s)))" for s
  proof (cases "stats s vid")
    case None
    then show ?thesis by (simp add: print_video_summary_def)
  next
    case (Some st)
    let ?tail = "case compression_ratio st of
                  None \<Rightarrow> returnM ()
                | Some r \<Rightarrow>
                    if r = 0 then returnM ()
                    else seqM (logger INFO (''  Compression Ratio: '' @ fmt_2f lib r @ ''x''))
                           (seqM (logger INFO (''  Input Size: ''
                                    @ fmt_2f lib (of_int (the (input_size st)) / 1024 / 1024) @ '' MB''))
                              (logger INFO (''  Output Size: ''
                                    @ fmt_2f lib (of_int (the (output_size st)) / 1024 / 1024)
                                    @ '' MB'')))"
    have t: "extends slog ?tail"
      by (cases "compression_ratio st") (auto intro!: extends_seqM sl_logger)
    have "extends slog (seqM (logger INFO ([NL] @ vid @ '':''))
            (seqM (logger INFO (''  Duration: '' @ hms (duration st)))
            (seqM (logger INFO (''  Segments: '' @ str_opt_nat (segment_count st)))
            (seqM (logger INFO (''  Audio Tracks: '' @ str_opt_nat (audio_tracks st))) ?tail))))"
      by (intro extends_seqM sl_logger t)
    from extendsD [OF this, of s] Some show ?thesis by (simp add: print_video_summary_def)
  qed
  then show ?thesis by (simp add: extends_def)
qed

lemma summary_loop_ok:
  assumes "set xs \<subseteq> dom (stats s)"
  shows "fst (forM xs (print_video_summary lib) s) = Inr ()"
  using assms
proof (induction xs arbitrary: s)
  case Nil
  show ?case by (simp add: returnM_def)
next
  case (Cons x xs)
  obtain r s1 where p: "print_video_summary lib x s = (r, s1)"
    by (cases "print_video_summary lib x s")
  from Cons.prems have "x \<in> dom (stats s)" by simp
  from print_video_summary_ok [OF this, of lib] p have r: "r = Inr ()" and st: "stats s1 = stats s"
    by simp_all
  with Cons.prems have "set xs \<subseteq> dom (stats s1)" by simp
  from Cons.IH [OF this] p r show ?case by (simp add: seqM_def bindM_def)
qed

lemma sl_print_video_summaries: "extends slog (print_video_summaries lib)"
  unfolding print_video_summaries_def
  by (rule extends_pointwise) (intro extends_forM sl_print_video_summary)

lemma in_env_time: "in_env time_time s = (Inr (clock (env s)), s)"
  by (simp add: in_env_def time_time_def)

lemma print_summary_ok:
  assumes "stats_known s"
  shows "fst (print_summary lib start s) = Inr ()"
    and "\<exists>c. last (slog (snd (print_summary lib start s)))
              = (INFO, c, [NL] @ ''Encoding workflow complete'')"
    and "\<exists>c. (INFO, c, [NL] @ ''=== Encoding Summary ==='') \<in> set (slog (snd (print_summary lib start s)))"
proof -
  let ?a = "\<lambda>s. snd (logger INFO ([NL] @ ''Individual Video Processing Times:'')
             (snd (logger INFO (''Total Duration: '' @ hms (clock (env s) - start))
             (snd (logger INFO (''End time: '' @ fmt_datetime lib (clock (env s)))
             (snd (logger INFO (''Start time: '' @ fmt_datetime lib start)
             (snd (logger INFO ''Overall Process:''
             (snd (logger INFO ([NL] @ ''=== Encoding Summary ==='') s)))))))))))"
  let ?s5 = "?a s"
  obtain r s6 where l: "print_video_summaries lib ?s5 = (r, s6)" by (cases "print_video_summaries lib ?s5")
  have eq: "print_summary lib start s =
          seqM (print_video_summaries lib) (logger INFO ([NL] @ ''Encoding workflow complete'')) ?s5"
    by (simp add: print_summary_def bindM_def in_env_time seqM_logger)
  from assms have "set (processed_videos ?s5) \<subseteq> dom (stats ?s5)" by (simp add: stats_known_def)
  from summary_loop_ok [OF this, of lib] l have r: "r = Inr ()"
    by (simp add: print_video_summaries_def)
  from eq l r have fin: "print_summary lib start s
       = logger INFO ([NL] @ ''Encoding workflow complete'') s6"
    by (simp add: seqM_def bindM_def)
  show "fst (print_summary lib start s) = Inr ()" by (simp add: fin)
  show "\<exists>c. last (slog (snd (print_summary lib start s)))
              = (INFO, c, [NL] @ ''Encoding workflow complete'')"
    by (simp add: fin logger_slog)
  have 1: "(INFO, log_context (env s), [NL] @ ''=== Encoding Summary ==='') \<in> set (slog ?s5)"
    by (simp add: logger_slog)
  have "prefix (slog ?s5) (slog s6)" using l by (rule extendsD2 [OF sl_print_video_summaries])
  moreover have "prefix (slog s6) (slog (snd (print_summary lib start s)))"
    by (simp add: fin logger_slog)
  ultimately have "prefix (slog ?s5) (slog (snd (print_summary lib start s)))"
    by (rule prefix_order.order_trans)
  with 1 show "\<exists>c. (INFO, c, [NL] @ ''=== Encoding Summary ==='') \<in> set (slog (snd (print_summary lib start s)))"
    by (blast intro: prefix_set_mono)
qed

lemma messages_iff: "(lv, msg) \<in> set (messages s) \<longleftrightarrow> (\<exists>c. (lv, c, msg) \<in> set (slog s))"
  by (force simp: messages_def)

lemma last_messages:
  "slog s \<noteq> [] \<Longrightarrow> last (slog s) = (lv, c, msg) \<Longrightarrow> last (messages s) = (lv, msg)"
  by (simp add: messages_def last_map)

lemma sl_print_summary: "extends slog (print_summary lib start)"
  unfolding print_summary_def
  by (intro extends_bindM extends_seqM sl_in_env cl_time_time sl_logger
        sl_print_video_summaries)

lemma process_video_logs_first:
  "\<exists>c. (INFO, c, ''Processing file '' @ str_nat i @ '' of '' @ str_nat n @ '': '' @ path_str inp)
        \<in> set (slog (snd (process_video proc lib cfg inp i n s)))"
proof -
  let ?J = "finallyM
          (catchM (process_video_body proc lib cfg inp (path_stem inp))
             (process_video_except inp (path_stem inp)))
          (process_video_finally cfg (path_stem inp))"
  obtain r1 s1 where e: "process_video_enter inp i n s = (r1, s1)"
    by (cases "process_video_enter inp i n s")
  from enter_logs_first [of s i n inp] e obtain c where
    pc: "prefix (slog s @ [(INFO, c, ''Processing file '' @ str_nat i @ '' of '' @ str_nat n
                                      @ '': '' @ path_str inp)]) (slog s1)"
    by auto
  have c: "(INFO, c, ''Processing file '' @ str_nat i @ '' of '' @ str_nat n @ '': '' @ path_str inp)
          \<in> set (slog s1)"
    by (rule prefix_set_mono [OF pc]) simp
  have J: "extends slog ?J"
    by (intro extends_finallyM extends_catchM sl_body sl_except sl_finally)
  show ?thesis
  proof (cases r1)
    case (Inl x)
    with e c show ?thesis by (auto simp: process_video_def seqM_def bindM_def)
  next
    case (Inr u)
    with e have "process_video proc lib cfg inp i n s = ?J s1"
      by (simp add: process_video_def seqM_def bindM_def)
    with extendsD [OF J, of s1] c show ?thesis by (auto intro: prefix_set_mono)
  qed
qed

lemma run_step_logs:
  "(\<exists>c. (INFO, c, ''Processing file '' @ str_nat i @ '' of '' @ str_nat n @ '': '' @ path_str inp)
        \<in> set (slog (snd (run_step proc lib cfg n (i, inp) s))))
   \<and> (\<forall>e. fst (process_video proc lib cfg inp i n s) = Inl e \<longrightarrow>
        (\<exists>c. (ERROR, c, ''Failed to process '' @ path_str inp @ '': '' @ str_exn e)
           \<in> set (slog (snd (run_step proc lib cfg n (i, inp) s)))))"
proof -
  obtain r s1 where p: "process_video proc lib cfg inp i n s = (r, s1)"
    by (cases "process_video proc lib cfg inp i n s")
  from process_video_logs_first [of i n inp proc lib cfg s] p obtain c where
    c: "(INFO, c, ''Processing file '' @ str_nat i @ '' of '' @ str_nat n @ '': '' @ path_str inp)
          \<in> set (slog s1)" by auto
  show ?thesis
  proof (cases r)
    case (Inr u)
    with p c show ?thesis by (auto simp: run_step_def catchM_def)
  next
    case (Inl e)
    with p have "snd (run_step proc lib cfg n (i, inp) s)
        = snd (logger ERROR (''Failed to process '' @ path_str inp @ '': '' @ str_exn e) s1)"
      by (simp add: run_step_def catchM_def)
    with p Inl c show ?thesis by (auto simp: logger_slog)
  qed
qed

lemma enumerate_from_nth:
  "k < length xs \<Longrightarrow> enumerate_from a xs ! k = (a + k, xs ! k)"
  by (simp add: enumerate_from_def)

lemma enumerate_from_length [simp]: "length (enumerate_from a xs) = length xs"
  by (simp add: enumerate_from_def)

section \<open>Audio bitrate table\<close>

text \<open>
  C4. With the default table, \<^verbatim>\<open>get_audio_bitrate\<close> returns 64, 128, 256 and 384 for
  1, 2, 6 and 8 channels, and \<^verbatim>\<open>channels * 48\<close> for every other channel count
  (zero and negative counts included).
\<close>

theorem get_audio_bitrate_table:
  "get_audio_bitrate default_config c =
     (if c = 1 then 64 else if c = 2 then 128 else if c = 6 then 256
      else if c = 8 then 384 else c * 48)"
  by (simp add: get_audio_bitrate_def dict_get_def default_config_def)

section \<open>Compression ratio\<close>

text \<open>
  C5, as stated: the ratio is undefined exactly when the output size is unknown or zero.
  It fails for a record whose input size is zero (or unknown) and whose output size is
  500: the ratio is undefined although the output size is known and not zero.
\<close>

theorem compression_ratio_counterexample:
  "\<not> (compression_ratio (mk_stats ''a'' 0 (Some 0) (Some 500)) = None
        \<longleftrightarrow> (output_size (mk_stats ''a'' 0 (Some 0) (Some 500)) = None
             \<or> output_size (mk_stats ''a'' 0 (Some 0) (Some 500)) = Some 0))"
  by (simp add: compression_ratio_def mk_stats_def)

text \<open>
  C5, amended: \<^verbatim>\<open>compression_ratio\<close> is undefined exactly when the input size or the
  output size is unknown or zero, and is \<^verbatim>\<open>input_size / output_size\<close> otherwise;
  input 1000 with output 500 gives 2, input 500 with output 1000 gives one half.
\<close>

theorem compression_ratio_defined:
  "(compression_ratio s = None \<longleftrightarrow>
      (input_size s = None \<or> input_size s = Some 0
       \<or> output_size s = None \<or> output_size s = Some 0))
   \<and> (\<forall>i out. input_size s = Some i \<and> output_size s = Some out \<and> i \<noteq> 0 \<and> out \<noteq> 0 \<longrightarrow>
          compression_ratio s = Some (of_int i / of_int out))
   \<and> compression_ratio (mk_stats n t (Some 1000) (Some 500)) = Some 2
   \<and> compression_ratio (mk_stats n t (Some 500) (Some 1000)) = Some (1 / 2)"
  by (cases "input_size s"; cases "output_size s")
     (auto simp: compression_ratio_def mk_stats_def)

theorem compression_ratio_defined_witness:
  "compression_ratio (mk_stats ''a'' 0 (Some 3000) (Some 1000)) = Some 3
   \<and> compression_ratio (mk_stats ''a'' 0 None (Some 1000)) = None
   \<and> compression_ratio (mk_stats ''a'' 0 (Some 3000) (Some 0)) = None"
  using compression_ratio_defined [of "mk_stats ''a'' 0 (Some 3000) (Some 1000)" "''a''" 0]
        compression_ratio_defined [of "mk_stats ''a'' 0 None (Some 1000)" "''a''" 0]
        compression_ratio_defined [of "mk_stats ''a'' 0 (Some 3000) (Some 0)" "''a''" 0]
  by (simp add: mk_stats_def)

section \<open>Segment-set validation\<close>



section \<open>Detection of the dynamic-range marker\<close>




section \<open>Default channel count of an audio stream\<close>

text \<open>
  C10. For a stream descriptor without a \<^verbatim>\<open>channels\<close> member, the loop of
  \<^verbatim>\<open>encode_audio_tracks\<close> encodes the track with 2 channels; with the default table
  the command that \<^verbatim>\<open>encode_audio_track\<close> then starts asks for \<^verbatim>\<open>128k\<close>; and when
  \<^verbatim>\<open>encode_audio_tracks\<close> returns, that command is among the processes it started.
\<close>

theorem encode_audio_tracks_default_channels:
  assumes "map_of kvs ''channels'' = None"
  shows "encode_tracks_loop proc lib default_config inp wd ((i, JObj kvs) # rest) acc =
           bindM (encode_audio_track proc default_config inp i 2 wd)
             (\<lambda>output_file.
                encode_tracks_loop proc lib default_config inp wd rest (acc @ [output_file]))
         \<and> history (snd (encode_audio_track proc default_config inp i 2 wd w)) =
             history w @ [audio_cmd inp i 128 (path_div wd (''audio-'' @ str_nat i @ ''.mkv''))]
         \<and> [''-b:a'', ''128k''] =
             take 2 (drop 20 (audio_cmd inp i 128 (path_div wd (''audio-'' @ str_nat i @ ''.mkv''))))
         \<and> (\<forall>streams files j.
               fst (get_audio_info proc lib inp w) = Inr (JArr streams)
               \<and> fst (encode_audio_tracks proc lib default_config inp wd w) = Inr files
               \<and> j < length streams \<and> streams ! j = JObj kvs \<longrightarrow>
               audio_cmd inp j 128 (path_div wd (''audio-'' @ str_nat j @ ''.mkv''))
                 \<in> set (history (snd (encode_audio_tracks proc lib default_config inp wd w))))"
  using assms encode_tracks_loop_no_channels [OF assms, of proc lib default_config inp wd i rest acc]
    encode_audio_track_stereo_history [of proc inp i wd w]
    encode_audio_tracks_history [of proc lib inp w _ wd _ _ kvs]
  by (simp add: audio_cmd_def str_defs)

theorem encode_audio_tracks_default_channels_witness:
  "fst (encode_audio_tracks (proc_exit 0 ''audio'' []) lib_one default_config input_a
          (get_dir default_config ''working'') audio_world)
     = Inr [path_div (get_dir default_config ''working'') ''audio-0.mkv'']
   \<and> [''ffmpeg'', ''-v'', ''info'', ''-stats'', ''-i'', ''/app/videos/input/a.mkv'',
       ''-map'', ''0:a:0'', ''-c:a'', ''libopus'',
       ''-af'', ''aformat=channel_layouts=7.1|5.1|stereo|mono'', ''-application'', ''audio'',
       ''-vbr'', ''on'', ''-compression_level'', ''10'', ''-frame_duration'', ''20'',
       ''-b:a'', ''128k'', ''-avoid_negative_ts'', ''make_zero'',
       ''/app/videos/working/audio-0.mkv'']
     \<in> set (history (snd (encode_audio_tracks (proc_exit 0 ''audio'' []) lib_one default_config
                 input_a (get_dir default_config ''working'') audio_world)))"
  using encode_audio_tracks_default_channels
          [where kvs = "[(''codec_name'', JStr ''aac'')]" and proc = "proc_exit 0 ''audio'' []"
             and lib = lib_one and inp = input_a and wd = "get_dir default_config ''working''"
             and w = audio_world and i = 0]
  by (simp add: stage_defs monad_defs fs_defs path_defs log_defs proc_defs example_defs
        str_defs Let_def)

section \<open>Order of the segments\<close>

text \<open>
  C8. The segments that \<^verbatim>\<open>encode_segments\<close> works on are the listed \<^verbatim>\<open>.mkv\<close> files,
  each once, in ascending lexicographic order of their file names; the encoder commands
  it starts are those of the first \<open>k\<close> segments in that order, of all of them when it
  returns. The manifest that \<^verbatim>\<open>concatenate_segments\<close> writes (when the file can be
  written) has one line for each listed encoded segment, in ascending lexicographic order
  of the file names.
\<close>

theorem segments_in_filename_order:
  "sorted (map path_name (sort (glob_suffix w segments_dir ''.mkv'')))
   \<and> mset (sort (glob_suffix w segments_dir ''.mkv'')) = mset (glob_suffix w segments_dir ''.mkv'')
   \<and> (\<exists>k\<le>length (sort (glob_suffix w segments_dir ''.mkv'')).
         enc_cmds (snd (encode_segments proc cfg segments_dir encoded_dir input_file w))
           = enc_cmds w @ map (enc_of cfg encoded_dir)
                            (take k (sort (glob_suffix w segments_dir ''.mkv'')))
         \<and> (fst (encode_segments proc cfg segments_dir encoded_dir input_file w) = Inr () \<longrightarrow>
              k = length (sort (glob_suffix w segments_dir ''.mkv''))))
   \<and> sorted (map path_name (sort (glob_suffix w encoded_dir ''.mkv'')))
   \<and> mset (sort (glob_suffix w encoded_dir ''.mkv'')) = mset (glob_suffix w encoded_dir ''.mkv'')
   \<and> writes (snd (concatenate_segments proc cfg encoded_dir output_file w)) =
       writes w @
         (if faults w Mkfile (path_div encoded_dir ''concat.txt'') = None
             \<and> dirs w encoded_dir \<noteq> None
          then [(path_div encoded_dir ''concat.txt'',
                 concat (map manifest_line (sort (glob_suffix w encoded_dir ''.mkv''))))]
          else [])"
  using sorted_glob [of w segments_dir "''.mkv''"] sorted_glob [of w encoded_dir "''.mkv''"]
    encode_segments_enc [of w segments_dir proc cfg encoded_dir input_file]
    concatenate_segments_writes [of proc cfg encoded_dir output_file w]
  by simp

theorem segments_in_filename_order_witness:
  "map path_name (sort (glob_suffix enc_world (get_dir default_config ''segments'') ''.mkv''))
     = [''0000.mkv'', ''0001.mkv'', ''0002.mkv'']
   \<and> fst (encode_segments (proc_exit 0 [] []) default_config
            (get_dir default_config ''segments'') (get_dir default_config ''encoded_segments'')
            ''a.mkv'' enc_world) = Inr ()
   \<and> map (\<lambda>c. take 4 (drop 25 c))
        (enc_cmds (snd (encode_segments (proc_exit 0 [] []) default_config
            (get_dir default_config ''segments'') (get_dir default_config ''encoded_segments'')
            ''a.mkv'' enc_world)))
     = [[''--input'', ''/app/videos/segments/0000.mkv'',
         ''--output'', ''/app/videos/encoded_segments/0000.mkv''],
        [''--input'', ''/app/videos/segments/0001.mkv'',
         ''--output'', ''/app/videos/encoded_segments/0001.mkv''],
        [''--input'', ''/app/videos/segments/0002.mkv'',
         ''--output'', ''/app/videos/encoded_segments/0002.mkv'']]
   \<and> writes (snd (concatenate_segments (proc_exit 0 [] []) default_config
            (get_dir default_config ''encoded_segments'')
            (path_div (get_dir default_config ''working'') ''a.mkv'') enc_world))
     = [(path_div (get_dir default_config ''encoded_segments'') ''concat.txt'',
         ''file '' @ [SQ] @ ''/app/videos/encoded_segments/0000.mkv'' @ [SQ, NL]
         @ ''file '' @ [SQ] @ ''/app/videos/encoded_segments/0001.mkv'' @ [SQ, NL]
         @ ''file '' @ [SQ] @ ''/app/videos/encoded_segments/0002.mkv'' @ [SQ, NL])]"
  using segments_in_filename_order
          [where w = enc_world and segments_dir = "get_dir default_config ''segments''"
             and encoded_dir = "get_dir default_config ''encoded_segments''"
             and proc = "proc_exit 0 [] []" and cfg = default_config and input_file = "''a.mkv''"
             and output_file = "path_div (get_dir default_config ''working'') ''a.mkv''"]
  by (simp add: stage_defs monad_defs fs_defs path_defs log_defs proc_defs example_defs
        str_defs enc_cmds_def enc_of_def is_encode_def Let_def)

end
